theory Spec2Isabelle
  imports Main "HOL-Library.Sublist"
begin


section \<open>JavaScript strings and paths\<close>

text \<open>
  Strings are character lists. The string methods the program calls are written out:
  \<open>startsWith\<close>, \<open>includes\<close>, \<open>split(c)[0]\<close> and \<open>replace\<close> with a string pattern,
  which rewrites the first occurrence of the pattern only, wherever it stands (the
  replacement texts of the program hold no \<open>$\<close>). \<open>String.prototype.toLowerCase\<close>
  folds every cased letter of Unicode; it is not written out but taken from the
  environment of the application (the field \<open>toLowerCase\<close> below). \<open>ascii_toLowerCase\<close>
  is its restriction to the letters A to Z, for the concrete environment only.
\<close>

definition startsWith :: "string \<Rightarrow> string \<Rightarrow> bool" where
  "startsWith s p = prefix p s"

fun str_includes :: "string \<Rightarrow> string \<Rightarrow> bool" where
  "str_includes [] p = (p = [])"
| "str_includes (c # cs) p = (prefix p (c # cs) \<or> str_includes cs p)"

fun replace :: "string \<Rightarrow> string \<Rightarrow> string \<Rightarrow> string" where
  "replace [] pat rep = (if pat = [] then rep else [])"
| "replace (c # cs) pat rep =
     (if prefix pat (c # cs) then rep @ drop (length pat) (c # cs)
      else c # replace cs pat rep)"

definition split_head :: "char \<Rightarrow> string \<Rightarrow> string" where
  "split_head sep s = takeWhile (\<lambda>c. c \<noteq> sep) s"

definition lower_char :: "char \<Rightarrow> char" where
  "lower_char c =
     (case map_of (zip ''ABCDEFGHIJKLMNOPQRSTUVWXYZ'' ''abcdefghijklmnopqrstuvwxyz'') c of
        Some l \<Rightarrow> l
      | None \<Rightarrow> c)"

definition ascii_toLowerCase :: "string \<Rightarrow> string" where
  "ascii_toLowerCase s = map lower_char s"

text \<open>
  \<open>path.basename\<close> and \<open>path.extname\<close> of Node on a POSIX host (the image is Alpine):
  trailing slashes are dropped, the base name is the last segment, and the extension runs
  from the last dot of the base name, unless there is no dot, the dot opens the base name,
  or the base name is \<open>..\<close>.
\<close>

definition basename :: "string \<Rightarrow> string" where
  "basename p =
     rev (takeWhile (\<lambda>c. c \<noteq> CHR ''/'') (dropWhile (\<lambda>c. c = CHR ''/'') (rev p)))"

definition extname :: "string \<Rightarrow> string" where
  "extname p =
     (let b = basename p;
          suf = rev (takeWhile (\<lambda>c. c \<noteq> CHR ''.'') (rev b))
      in if CHR ''.'' \<notin> set b then []
         else if length b = Suc (length suf) then []
         else if b = ''..'' then []
         else CHR ''.'' # suf)"


section \<open>The world: console, log file and the requests sent\<close>

datatype request =
    TokenRequest string string
  | Download string
  | ReadFile string
  | UploadRequest string string string string
  | DraftRequest string string string string

text \<open>
  \<open>TokenRequest appid secret\<close>, \<open>Download url\<close>, \<open>ReadFile path\<close>,
  \<open>UploadRequest type token fileName data\<close> and
  \<open>DraftRequest token title content thumb_media_id\<close> are the calls that leave the
  process, in the order they are made.
\<close>

record world =
  console :: "string list"
  logfile :: "string list"
  net :: "request list"

datatype error =
    LogWriteFailed
  | FetchFailed
  | TokenApiError int string
  | TokenUnknownError
  | UploadFailed nat string
  | UploadApiError int string
  | UploadUrlMissing
  | ImageDownloadFailed string
  | FileNotFound string
  | MissingCover
  | DraftApiError int string
  | DraftUnknownError
  | InvalidThemeID
  | RenderFailed
  | UnknownTool
  | NotAFunction
  | TransportThrew

type_synonym ('w, 'a) io = "'w \<Rightarrow> (error + 'a) \<times> 'w"

definition ret :: "'a \<Rightarrow> ('w, 'a) io" where
  "ret x = (\<lambda>w. (Inr x, w))"

definition throw :: "error \<Rightarrow> ('w, 'a) io" where
  "throw e = (\<lambda>w. (Inl e, w))"

definition bnd :: "('w, 'a) io \<Rightarrow> ('a \<Rightarrow> ('w, 'b) io) \<Rightarrow> ('w, 'b) io" where
  "bnd m f = (\<lambda>w. case m w of (Inl e, w') \<Rightarrow> (Inl e, w') | (Inr x, w') \<Rightarrow> f x w')"

definition catch :: "('w, 'a) io \<Rightarrow> (error \<Rightarrow> ('w, 'a) io) \<Rightarrow> ('w, 'a) io" where
  "catch m h = (\<lambda>w. case m w of (Inl e, w') \<Rightarrow> h e w' | (Inr x, w') \<Rightarrow> (Inr x, w'))"

definition send :: "request \<Rightarrow> ('a world_scheme, unit) io" where
  "send r = (\<lambda>w. (Inr (), w\<lparr>net := net w @ [r]\<rparr>))"


section \<open>The remote services and the host\<close>

record token_json =
  access_token :: "string option"
  token_errcode :: "int option"
  token_errmsg :: string

record upload_json =
  upload_errcode :: "int option"
  upload_errmsg :: string
  json_media_id :: string
  json_url :: "string option"

record upload_http =
  upload_ok :: bool
  upload_status :: nat
  upload_body :: string
  upload_data :: upload_json

record download_http =
  download_ok :: bool
  download_body :: "string option"

record draft_json =
  draft_media_id :: "string option"
  draft_errcode :: "int option"
  draft_errmsg :: string

text \<open>
  The environment of a run: the process environment variables, whether an append to the
  log file succeeds (given the file and the line), and the answers of the remote
  endpoints and of the file system. \<open>None\<close> is a rejected \<open>fetch\<close> (or a body that is
  not JSON), respectively a file that cannot be opened. A field of a JSON answer that is
  absent is \<open>None\<close>; \<open>json_media_id\<close> is the empty string when absent, which the program
  cannot tell from an empty one.
\<close>

datatype node = Img "(string \<times> string) list" | Other string

text \<open>
  A parsed document, as far as the program looks at it: its nodes in document order, an
  \<open>img\<close> element with its attributes or any other piece of markup. The parser and the
  serializer are the library's (jsdom) and are taken as they come, as functions of the
  environment.

  The uploads of the images of one document are pending at the same time, and which of
  them comes to its end first is for the network and the file system to decide:
  \<open>settle_order\<close> gives, for a document, the positions of its nodes in the order in which
  their uploads come to an end.
\<close>

record env =
  WECHAT_APP_ID :: "string option"
  WECHAT_APP_SECRET :: "string option"
  HOST_IMAGE_PATH :: "string option"
  append_ok :: "string list \<Rightarrow> string \<Rightarrow> bool"
  token_api :: "string \<Rightarrow> string \<Rightarrow> token_json option"
  http_get :: "string \<Rightarrow> download_http option"
  file_from_path :: "string \<Rightarrow> string option"
  upload_api :: "string \<Rightarrow> string \<Rightarrow> string \<Rightarrow> string \<Rightarrow> upload_http option"
  draft_api :: "string \<Rightarrow> string \<Rightarrow> string \<Rightarrow> string \<Rightarrow> draft_json option"
  jsdom_parse :: "string \<Rightarrow> node list"
  jsdom_serialize :: "node list \<Rightarrow> string"
  settle_order :: "node list \<Rightarrow> nat list"

definition tokenUrl :: string where
  "tokenUrl = ''https://api.weixin.qq.com/cgi-bin/token''"

definition dockerImagePath :: string where
  "dockerImagePath = ''/mnt/host-downloads''"

definition cdnPrefix :: string where
  "cdnPrefix = ''https://mmbiz.qpic.cn''"

text \<open>JavaScript's \<open>a || b\<close> on optional strings: the first that is present and not empty.\<close>

definition or_else :: "string option \<Rightarrow> string \<Rightarrow> string" where
  "or_else a b = (case a of None \<Rightarrow> b | Some s \<Rightarrow> if s = [] then b else s)"

definition truthy_str :: "string option \<Rightarrow> bool" where
  "truthy_str a = (case a of None \<Rightarrow> False | Some s \<Rightarrow> s \<noteq> [])"

definition truthy_int :: "int option \<Rightarrow> bool" where
  "truthy_int a = (case a of None \<Rightarrow> False | Some n \<Rightarrow> n \<noteq> 0)"

definition int_of :: "int option \<Rightarrow> int" where
  "int_of a = (case a of None \<Rightarrow> 0 | Some n \<Rightarrow> n)"


section \<open>publish.ts\<close>

text \<open>
  \<open>appendFileSync\<close> throws when the file cannot be written. \<open>log\<close> of publish.ts prints
  the line, tries the append and, when it throws, prints a second line instead of
  passing the exception on. The time stamp and the rendering of the arguments are left
  out of the line.
\<close>

definition appendFileSync :: "env \<Rightarrow> string \<Rightarrow> ('a world_scheme, unit) io" where
  "appendFileSync E line =
     (\<lambda>w. if append_ok E (logfile w) line then (Inr (), w\<lparr>logfile := logfile w @ [line]\<rparr>)
          else (Inl LogWriteFailed, w))"

definition console_log :: "string \<Rightarrow> ('a world_scheme, unit) io" where
  "console_log line = (\<lambda>w. (Inr (), w\<lparr>console := console w @ [line]\<rparr>))"

definition log_publish :: "env \<Rightarrow> string \<Rightarrow> ('a world_scheme, unit) io" where
  "log_publish E msg =
     bnd (console_log msg) (\<lambda>_.
       catch (appendFileSync E msg) (\<lambda>e. console_log ''Failed to write to log file''))"

definition fetchAccessToken :: "env \<Rightarrow> string option \<Rightarrow> string option \<Rightarrow> ('a world_scheme, token_json) io" where
  "fetchAccessToken E appid appsecret =
     bnd (log_publish E ''Fetching access token'') (\<lambda>_.
       let appIdToUse = or_else appid (or_else (WECHAT_APP_ID E) []);
           appSecretToUse = or_else appsecret (or_else (WECHAT_APP_SECRET E) [])
       in bnd (send (TokenRequest appIdToUse appSecretToUse)) (\<lambda>_.
            case token_api E appIdToUse appSecretToUse of
              None \<Rightarrow> throw FetchFailed
            | Some data \<Rightarrow>
                if truthy_str (access_token data) then
                  bnd (log_publish E ''Access token fetched'') (\<lambda>_. ret data)
                else if truthy_int (token_errcode data) then
                  bnd (log_publish E ''Access token fetch error'') (\<lambda>_.
                    throw (TokenApiError (int_of (token_errcode data)) (token_errmsg data)))
                else
                  bnd (log_publish E ''Access token fetch unknown error'') (\<lambda>_.
                    throw TokenUnknownError)))"

record UploadResponse =
  media_id :: string
  url :: string

definition uploadMaterial :: "env \<Rightarrow> string \<Rightarrow> string \<Rightarrow> string \<Rightarrow> string \<Rightarrow> ('a world_scheme, UploadResponse) io" where
  "uploadMaterial E type fileData fileName accessToken =
     bnd (log_publish E ''Uploading material'') (\<lambda>_.
     bnd (send (UploadRequest type accessToken fileName fileData)) (\<lambda>_.
       case upload_api E type accessToken fileName fileData of
         None \<Rightarrow> throw FetchFailed
       | Some response \<Rightarrow>
           if \<not> upload_ok response then
             bnd (log_publish E ''Upload failed'') (\<lambda>_.
               throw (UploadFailed (upload_status response) (upload_body response)))
           else
             let data = upload_data response in
             if truthy_int (upload_errcode data) then
               bnd (log_publish E ''Upload error'') (\<lambda>_.
                 throw (UploadApiError (int_of (upload_errcode data)) (upload_errmsg data)))
             else
               (case json_url data of
                  None \<Rightarrow> throw UploadUrlMissing
                | Some u \<Rightarrow>
                    let result = replace u ''http://'' ''https://'' in
                    bnd (log_publish E ''Upload success'') (\<lambda>_.
                      ret \<lparr>media_id = json_media_id data, url = result\<rparr>))))"

definition imageName_of :: "string option \<Rightarrow> string \<Rightarrow> string" where
  "imageName_of fileName base =
     (case fileName of
        Some f \<Rightarrow> f
      | None \<Rightarrow> if extname base = [] then base @ ''.jpg'' else base)"

definition localImagePath_of :: "env \<Rightarrow> string \<Rightarrow> string" where
  "localImagePath_of E imageUrl =
     (let hostImagePath = or_else (HOST_IMAGE_PATH E) [] in
      if hostImagePath \<noteq> [] then replace imageUrl hostImagePath dockerImagePath else imageUrl)"

text \<open>
  \<open>uploadImage\<close> is an \<open>async\<close> function: called, it runs up to its first \<open>await\<close>, where
  the download or the file read has been started, and gives the control back; the rest
  runs when the answer is there. \<open>uploadImage_begin\<close> is the first part and
  \<open>uploadImage_finish\<close> the rest; a caller that awaits the call at once, with nothing else
  pending, sees the one after the other (\<open>uploadImage\<close>).
\<close>

definition uploadImage_begin :: "env \<Rightarrow> string \<Rightarrow> ('a world_scheme, unit) io" where
  "uploadImage_begin E imageUrl =
     bnd (log_publish E ''Uploading image'') (\<lambda>_.
       if startsWith imageUrl ''http'' then send (Download imageUrl)
       else
         let localImagePath = localImagePath_of E imageUrl
         in send (ReadFile localImagePath))"

definition uploadImage_finish :: "env \<Rightarrow> string \<Rightarrow> string \<Rightarrow> string option \<Rightarrow> ('a world_scheme, UploadResponse) io" where
  "uploadImage_finish E imageUrl accessToken fileName =
     (if startsWith imageUrl ''http'' then
        (case http_get E imageUrl of
           None \<Rightarrow> throw FetchFailed
         | Some response \<Rightarrow>
             (case (if download_ok response then download_body response else None) of
                None \<Rightarrow>
                  bnd (log_publish E ''Failed to download image from URL'') (\<lambda>_.
                    throw (ImageDownloadFailed imageUrl))
              | Some buffer \<Rightarrow>
                  let fileNameFromUrl = basename (split_head (CHR ''?'') imageUrl);
                      imageName = imageName_of fileName fileNameFromUrl
                  in uploadMaterial E ''image'' buffer imageName accessToken))
      else
        let localImagePath = localImagePath_of E imageUrl;
            fileNameFromLocal = basename localImagePath;
            imageName = imageName_of fileName fileNameFromLocal
        in (case file_from_path E localImagePath of
              None \<Rightarrow> throw (FileNotFound localImagePath)
            | Some file \<Rightarrow> uploadMaterial E ''image'' file imageName accessToken))"

definition uploadImage :: "env \<Rightarrow> string \<Rightarrow> string \<Rightarrow> string option \<Rightarrow> ('a world_scheme, UploadResponse) io" where
  "uploadImage E imageUrl accessToken fileName =
     bnd (uploadImage_begin E imageUrl) (\<lambda>_.
       uploadImage_finish E imageUrl accessToken fileName)"

text \<open>
  \<open>imageName_of\<close> is the expression \<open>fileName ?? (ext === "" ? base + ".jpg" : base)\<close>
  that both branches of \<open>uploadImage\<close> share, and \<open>localImagePath_of\<close> is the first
  line of its local branch.
\<close>

fun setAttribute :: "(string \<times> string) list \<Rightarrow> string \<Rightarrow> string \<Rightarrow> (string \<times> string) list" where
  "setAttribute [] k v = [(k, v)]"
| "setAttribute ((a, b) # rest) k v =
     (if a = k then (a, v) # rest else (a, b) # setAttribute rest k v)"

definition getAttribute :: "(string \<times> string) list \<Rightarrow> string \<Rightarrow> string option" where
  "getAttribute attrs k = map_of attrs k"

text \<open>
  The callback that \<open>uploadImages\<close> maps over the \<open>img\<close> elements, an \<open>async\<close> function
  too. \<open>uploadPromise_begin\<close> is what a call of it does at once: nothing, or the first
  part of \<open>uploadImage\<close>. \<open>uploadPromise_finish\<close> is the rest: it gives the element as it
  leaves it and the value it resolves to (\<open>None\<close> for \<open>null\<close>). Markup that is not an
  \<open>img\<close> element is not selected; it is carried along unchanged so that the document
  stays one list.
\<close>

definition uploadPromise_begin :: "env \<Rightarrow> node \<Rightarrow> ('a world_scheme, unit) io" where
  "uploadPromise_begin E element =
     (case element of
        Other m \<Rightarrow> ret ()
      | Img attrs \<Rightarrow>
          (case getAttribute attrs ''src'' of
             None \<Rightarrow> ret ()
           | Some dataSrc \<Rightarrow>
               if dataSrc = [] then ret ()
               else if \<not> startsWith dataSrc cdnPrefix then uploadImage_begin E dataSrc
               else ret ()))"

definition uploadPromise_finish :: "env \<Rightarrow> string \<Rightarrow> node \<Rightarrow> ('a world_scheme, node \<times> string option) io" where
  "uploadPromise_finish E accessToken element =
     (case element of
        Other m \<Rightarrow> ret (element, None)
      | Img attrs \<Rightarrow>
          (case getAttribute attrs ''src'' of
             None \<Rightarrow> ret (element, None)
           | Some dataSrc \<Rightarrow>
               if dataSrc = [] then ret (element, None)
               else if \<not> startsWith dataSrc cdnPrefix then
                 bnd (uploadImage_finish E dataSrc accessToken None) (\<lambda>resp.
                   ret (Img (setAttribute attrs ''src'' (url resp)), Some (media_id resp)))
               else ret (element, Some dataSrc)))"

text \<open>
  \<open>images.map(async ...)\<close> calls the callback on every element, in document order, before
  anything else happens: every download and file read is under way before the first
  upload (\<open>begin_all\<close>). The callbacks then come to their end in the order the environment
  gives (\<open>settle_all\<close>); one that throws does not stop the others, its outcome is kept
  with its position. \<open>settle_order_of\<close> makes a permutation of the positions of what the
  environment gives: positions out of range and repetitions are dropped, positions left
  out come last, in document order. So \<open>images ! i\<close> is only read at a position of the
  document.

  Between two of its \<open>await\<close>s a callback may give way to another. Here the rest of a
  callback runs in one piece: the console lines of two uploads do not mix, and of two
  uploads the one that is sent first is also the one that ends first. A callback still
  pending when \<open>Promise.all\<close> rejects is not cancelled: it runs on and sends its upload,
  and it is run here before the rejection is passed on.
\<close>

definition settle :: "('w, 'a) io \<Rightarrow> ('w, error + 'a) io" where
  "settle m = (\<lambda>w. case m w of (r, w') \<Rightarrow> (Inr r, w'))"

fun begin_all :: "env \<Rightarrow> node list \<Rightarrow> ('a world_scheme, unit) io" where
  "begin_all E [] = ret ()"
| "begin_all E (element # rest) =
     bnd (uploadPromise_begin E element) (\<lambda>_. begin_all E rest)"

fun settle_all :: "env \<Rightarrow> string \<Rightarrow> node list \<Rightarrow> nat list \<Rightarrow> ('a world_scheme, (nat \<times> (error + node \<times> string option)) list) io" where
  "settle_all E accessToken images [] = ret []"
| "settle_all E accessToken images (i # later) =
     bnd (settle (uploadPromise_finish E accessToken (images ! i))) (\<lambda>r.
     bnd (settle_all E accessToken images later) (\<lambda>rs. ret ((i, r) # rs)))"

definition settle_order_of :: "env \<Rightarrow> node list \<Rightarrow> nat list" where
  "settle_order_of E images =
     (let given = remdups (filter (\<lambda>i. i < length images) (settle_order E images))
      in given @ filter (\<lambda>i. i \<notin> set given) [0..<length images])"

definition uploadPromises :: "env \<Rightarrow> string \<Rightarrow> node list \<Rightarrow> ('a world_scheme, (nat \<times> (error + node \<times> string option)) list) io" where
  "uploadPromises E accessToken images =
     bnd (begin_all E images) (\<lambda>_.
       settle_all E accessToken images (settle_order_of E images))"

text \<open>
  \<open>Promise.all\<close> on the outcomes, given with their positions in the order in which they
  came: it rejects with the failure that came first, and when there is none it resolves
  to the values in the order of the promises, which is document order. \<open>all_values\<close>
  gives the first failure of a list, or all its values.
\<close>

fun all_values :: "(error + 'a) list \<Rightarrow> error + 'a list" where
  "all_values [] = Inr []"
| "all_values (Inl e # rs) = Inl e"
| "all_values (Inr x # rs) = (case all_values rs of Inl e \<Rightarrow> Inl e | Inr xs \<Rightarrow> Inr (x # xs))"

definition promise_all :: "(nat \<times> (error + 'a)) list \<Rightarrow> error + 'a list" where
  "promise_all settled =
     (case all_values (map snd settled) of
        Inl e \<Rightarrow> Inl e
      | Inr _ \<Rightarrow> all_values (map snd (sort_key fst settled)))"

text \<open>\<open>filter(Boolean)\<close> drops \<open>null\<close> and the empty string.\<close>

fun filter_Boolean :: "string option list \<Rightarrow> string list" where
  "filter_Boolean [] = []"
| "filter_Boolean (None # xs) = filter_Boolean xs"
| "filter_Boolean (Some s # xs) = (if s = [] then filter_Boolean xs else s # filter_Boolean xs)"

definition first_or_empty :: "string list \<Rightarrow> string" where
  "first_or_empty xs = (case xs of [] \<Rightarrow> [] | x # _ \<Rightarrow> x)"

record Relocated =
  html :: string
  firstImageId :: string

definition uploadImages :: "env \<Rightarrow> string \<Rightarrow> string \<Rightarrow> ('a world_scheme, Relocated) io" where
  "uploadImages E content accessToken =
     bnd (log_publish E ''Uploading images in content'') (\<lambda>_.
       if \<not> str_includes content ''<img'' then
         bnd (log_publish E ''No images found in content'') (\<lambda>_.
           ret \<lparr>html = content, firstImageId = []\<rparr>)
       else
         let document = jsdom_parse E content in
         bnd (uploadPromises E accessToken document) (\<lambda>settled.
           case promise_all settled of
             Inl e \<Rightarrow> throw e
           | Inr results \<Rightarrow>
               let mediaIds = filter_Boolean (map snd results);
                   firstImageId = first_or_empty mediaIds;
                   updatedHtml = jsdom_serialize E (map fst results)
               in bnd (log_publish E ''Images uploaded'') (\<lambda>_.
                    ret \<lparr>html = updatedHtml, firstImageId = firstImageId\<rparr>)))"

definition publishToDraft :: "env \<Rightarrow> string \<Rightarrow> string \<Rightarrow> string \<Rightarrow> string option \<Rightarrow> string option \<Rightarrow> ('a world_scheme, draft_json) io" where
  "publishToDraft E title content cover appid appsecret =
     bnd (log_publish E ''Publishing to draft'') (\<lambda>_.
     bnd (fetchAccessToken E appid appsecret) (\<lambda>accessToken.
     let token = or_else (access_token accessToken) [] in
     bnd (uploadImages E content token) (\<lambda>r.
     bnd (if cover \<noteq> [] then
            bnd (uploadImage E cover token (Some ''cover.jpg'')) (\<lambda>resp. ret (media_id resp))
          else if startsWith (firstImageId r) cdnPrefix then
            bnd (uploadImage E (firstImageId r) token (Some ''cover.jpg'')) (\<lambda>resp.
              ret (media_id resp))
          else ret (firstImageId r)) (\<lambda>thumbMediaId.
     if thumbMediaId = [] then
       bnd (log_publish E ''No cover image found'') (\<lambda>_. throw MissingCover)
     else
       bnd (send (DraftRequest token title (html r) thumbMediaId)) (\<lambda>_.
         case draft_api E token title (html r) thumbMediaId of
           None \<Rightarrow> throw FetchFailed
         | Some data \<Rightarrow>
             if truthy_str (draft_media_id data) then
               bnd (log_publish E ''Draft published'') (\<lambda>_. ret data)
             else if truthy_int (draft_errcode data) then
               bnd (log_publish E ''Draft publish error'') (\<lambda>_.
                 throw (DraftApiError (int_of (draft_errcode data)) (draft_errmsg data)))
             else
               bnd (log_publish E ''Draft publish unknown error'') (\<lambda>_.
                 throw DraftUnknownError))))))"


section \<open>index.ts\<close>

text \<open>
  \<open>log\<close> of index.ts: the same, with an empty \<open>catch\<close> block.
\<close>

definition log_index :: "env \<Rightarrow> string \<Rightarrow> ('a world_scheme, unit) io" where
  "log_index E msg =
     bnd (console_log msg) (\<lambda>_. catch (appendFileSync E msg) (\<lambda>e. ret ()))"

record Theme =
  theme_id :: string
  theme_name :: string
  theme_description :: string

record FrontMatter =
  fm_title :: "string option"
  fm_cover :: "string option"
  fm_body :: string

datatype sdk_outcome = Served | Initialized | Closed | Threw

datatype http_method = POST | GET | DELETE

record http_request =
  req_method :: http_method
  mcp_session_id :: "string option"
  isInitializeRequest :: bool

text \<open>
  Reading \<open>obj[k]\<close> on an object literal used as a map gives the entry stored under
  \<open>k\<close>, and for a \<open>k\<close> with no entry that names a member of \<open>Object.prototype\<close> it
  gives that member, which is not an entry but is not \<open>undefined\<close> either (it is a
  function, or the prototype itself for \<open>__proto__\<close>, and so it is truthy).
\<close>

definition object_prototype_keys :: "string list" where
  "object_prototype_keys =
     [''constructor'', ''__proto__'', ''hasOwnProperty'', ''isPrototypeOf'',
      ''propertyIsEnumerable'', ''toLocaleString'', ''toString'', ''valueOf'',
      ''__defineGetter__'', ''__defineSetter__'', ''__lookupGetter__'', ''__lookupSetter__'']"

datatype 'a js_value = Undefined | Own 'a | Inherited

definition js_get :: "(string \<rightharpoonup> 'a) \<Rightarrow> string \<Rightarrow> 'a js_value" where
  "js_get obj k =
     (case obj k of
        Some v \<Rightarrow> Own v
      | None \<Rightarrow> if k \<in> set object_prototype_keys then Inherited else Undefined)"

text \<open>
  What index.ts imports and does not define. \<open>themes\<close> is the theme registry of
  theme.ts, an object that index.ts uses as a map from theme id to theme (\<open>themes[k]\<close>,
  \<open>Object.values\<close>, \<open>Object.entries\<close>): its entries, in the order in which
  \<open>Object.entries\<close> gives them. \<open>toLowerCase\<close> is \<open>String.prototype.toLowerCase\<close>.
  \<open>handleFrontMatter\<close> and \<open>renderMarkdown\<close> are the functions of main.js; the second
  argument of \<open>renderMarkdown\<close> is \<open>None\<close> when it is called with \<open>undefined\<close>, and its
  result is \<open>None\<close> when it throws. \<open>randomUUID\<close> gives the identifier that the
  transport with a given handle generates, and \<open>sdk_handleRequest\<close> is the protocol
  library's \<open>transport.handleRequest\<close>: it serves the request, or initializes the session
  of a new transport and serves the request, or closes the transport (as on a
  \<open>DELETE\<close>) and answers, or throws.
\<close>

record app =
  themes :: "(string \<times> Theme) list"
  toLowerCase :: "string \<Rightarrow> string"
  handleFrontMatter :: "string \<Rightarrow> FrontMatter"
  renderMarkdown :: "string \<Rightarrow> string option \<Rightarrow> string option"
  randomUUID :: "nat \<Rightarrow> string"
  sdk_handleRequest :: "nat \<Rightarrow> http_request \<Rightarrow> sdk_outcome"

record tool_arguments =
  arg_content :: "string option"
  arg_theme_id :: "string option"
  arg_appid :: "string option"
  arg_appsecret :: "string option"

datatype tool_result =
    Published string
  | ThemeList "(string \<times> string \<times> string) list"

text \<open>
  \<open>Published m\<close> is the text "Your article was successfully published ... The media ID
  is m."; \<open>ThemeList\<close> holds the id, name and description of each record of
  \<open>list_themes\<close>. \<open>resolveTheme\<close> is the theme lookup of the \<open>publish_article\<close> branch
  (the lines from \<open>let theme = themes["default"]\<close> to the end of \<open>if (themeId)\<close>). Its
  value is \<open>Own\<close> for a theme of the registry, \<open>Inherited\<close> when \<open>themes[themeId]\<close> is a
  member of \<open>Object.prototype\<close> (the search by name is then not made, since the value is
  truthy), and \<open>Undefined\<close> otherwise.
\<close>

definition resolveTheme :: "app \<Rightarrow> string \<Rightarrow> Theme js_value" where
  "resolveTheme A themeId =
     (if themeId \<noteq> [] then
        (case js_get (map_of (themes A)) themeId of
           Undefined \<Rightarrow>
             (case find (\<lambda>theme. toLowerCase A (theme_name theme) = toLowerCase A themeId)
                     (map snd (themes A)) of
                None \<Rightarrow> Undefined
              | Some theme \<Rightarrow> Own theme)
         | theme \<Rightarrow> theme)
      else js_get (map_of (themes A)) ''default'')"

text \<open>
  \<open>publishArticle\<close> is the rest of the \<open>publish_article\<close> branch, from
  \<open>handleFrontMatter(content)\<close> on, once the theme is known. It reads \<open>theme.id\<close> only,
  which is its argument \<open>themeId\<close>: the id of a theme of the registry, and \<open>None\<close>
  (\<open>undefined\<close>) for a member of \<open>Object.prototype\<close>, none of which has a property \<open>id\<close>.
\<close>

definition publishArticle :: "app \<Rightarrow> env \<Rightarrow> string option \<Rightarrow> tool_arguments \<Rightarrow> ('a world_scheme, tool_result) io" where
  "publishArticle A E themeId arguments =
     (let content = or_else (arg_content arguments) [];
          preHandlerContent = handleFrontMatter A content
      in bnd (log_index E ''FrontMatter handled'') (\<lambda>_.
         case renderMarkdown A (fm_body preHandlerContent) themeId of
           None \<Rightarrow> throw RenderFailed
         | Some rendered \<Rightarrow>
         bnd (log_index E ''Markdown rendered'') (\<lambda>_.
         let title = (case fm_title preHandlerContent of
                        None \<Rightarrow> ''this is title'' | Some t \<Rightarrow> t);
             cover = (case fm_cover preHandlerContent of None \<Rightarrow> [] | Some c \<Rightarrow> c)
         in catch
              (bnd (publishToDraft E title rendered cover
                      (arg_appid arguments) (arg_appsecret arguments)) (\<lambda>response.
               bnd (log_index E ''Article published'') (\<lambda>_.
                 ret (Published (or_else (draft_media_id response) [])))))
              (\<lambda>err. bnd (log_index E ''Publish error'') (\<lambda>_. throw err)))))"

definition call_tool :: "app \<Rightarrow> env \<Rightarrow> string \<Rightarrow> tool_arguments \<Rightarrow> ('a world_scheme, tool_result) io" where
  "call_tool A E name arguments =
     bnd (log_index E ''CallToolRequestSchema called'') (\<lambda>_.
       if name = ''publish_article'' then
         let themeId = or_else (arg_theme_id arguments) [] in
         (case resolveTheme A themeId of
            Undefined \<Rightarrow> bnd (log_index E ''Invalid theme ID'') (\<lambda>_. throw InvalidThemeID)
          | Own theme \<Rightarrow> publishArticle A E (Some (theme_id theme)) arguments
          | Inherited \<Rightarrow> publishArticle A E None arguments)
       else if name = ''list_themes'' then
         bnd (log_index E ''Listing themes'') (\<lambda>_.
           ret (ThemeList (map (\<lambda>(k, theme). (k, theme_name theme, theme_description theme))
                  (themes A))))
       else bnd (log_index E ''Unknown tool'') (\<lambda>_. throw UnknownTool))"

subsection \<open>The session maps and the routes\<close>

text \<open>
  \<open>transports\<close> and \<open>servers\<close> are object literals used as maps from session id to
  transport and server (here: their handles), read with \<open>js_get\<close>: a member of
  \<open>Object.prototype\<close> is not a transport but is not \<open>undefined\<close> either.
\<close>

record sessions = world +
  transports :: "string \<rightharpoonup> nat"
  servers :: "string \<rightharpoonup> nat"
  created :: nat

datatype response =
    JsonRpcError nat int string
  | PlainText nat string
  | FromTransport nat

definition onsessioninitialized :: "env \<Rightarrow> nat \<Rightarrow> string \<Rightarrow> (sessions, unit) io" where
  "onsessioninitialized E h sid =
     bnd (log_index E ''Session initialized'') (\<lambda>_ w.
       (Inr (), w\<lparr>transports := (transports w)(sid \<mapsto> h), servers := (servers w)(sid \<mapsto> h)\<rparr>))"

definition onclose :: "env \<Rightarrow> string option \<Rightarrow> (sessions, unit) io" where
  "onclose E sessionId =
     bnd (log_index E ''Session closed'') (\<lambda>_ w.
       if truthy_str sessionId then
         (Inr (), w\<lparr>transports := (transports w)(or_else sessionId [] := None),
                     servers := (servers w)(or_else sessionId [] := None)\<rparr>)
       else (Inr (), w))"

definition new_transport :: "(sessions, nat) io" where
  "new_transport = (\<lambda>w. (Inr (created w), w\<lparr>created := Suc (created w)\<rparr>))"

text \<open>
  \<open>transport.handleRequest\<close>, on the value read from the map under \<open>sessionId\<close> (a
  member of \<open>Object.prototype\<close> has no such method, and the call throws), and on a
  transport just created, whose session the library may initialize. When the library
  closes the transport it calls \<open>transport.onclose\<close>, which index.ts has set on every
  transport before its first request. A transport is stored in the map under its own
  session id only (\<open>onsessioninitialized\<close>), so \<open>transport.sessionId\<close> is the id under
  which it was found; a transport that has not been initialized has none.
\<close>

definition handleRequest :: "app \<Rightarrow> env \<Rightarrow> nat js_value \<Rightarrow> string \<Rightarrow> http_request \<Rightarrow> (sessions, response) io" where
  "handleRequest A E transport sessionId req =
     (case transport of
        Own h \<Rightarrow>
          (case sdk_handleRequest A h req of
             Threw \<Rightarrow> throw TransportThrew
           | Closed \<Rightarrow> bnd (onclose E (Some sessionId)) (\<lambda>_. ret (FromTransport h))
           | _ \<Rightarrow> ret (FromTransport h))
      | _ \<Rightarrow> throw NotAFunction)"

definition handleRequest_new :: "app \<Rightarrow> env \<Rightarrow> nat \<Rightarrow> http_request \<Rightarrow> (sessions, response) io" where
  "handleRequest_new A E h req =
     (case sdk_handleRequest A h req of
        Threw \<Rightarrow> throw TransportThrew
      | Served \<Rightarrow> ret (FromTransport h)
      | Closed \<Rightarrow> bnd (onclose E None) (\<lambda>_. ret (FromTransport h))
      | Initialized \<Rightarrow>
          bnd (onsessioninitialized E h (randomUUID A h)) (\<lambda>_. ret (FromTransport h)))"

definition handled_or_500 :: "env \<Rightarrow> (sessions, response) io \<Rightarrow> (sessions, response) io" where
  "handled_or_500 E handling =
     catch
       (bnd handling (\<lambda>r. bnd (log_index E ''Request handled successfully'') (\<lambda>_. ret r)))
       (\<lambda>err. bnd (log_index E ''Request handling error'') (\<lambda>_.
          ret (JsonRpcError 500 (- 32001) ''Internal server error'')))"

definition get_transports :: "(sessions, string \<rightharpoonup> nat) io" where
  "get_transports = (\<lambda>w. (Inr (transports w), w))"

definition post_mcp :: "app \<Rightarrow> env \<Rightarrow> http_request \<Rightarrow> (sessions, response) io" where
  "post_mcp A E req =
     bnd (log_index E ''POST /mcp'') (\<lambda>_.
     bnd get_transports (\<lambda>transports.
       let sessionId = or_else (mcp_session_id req) [] in
       if sessionId \<noteq> [] \<and> js_get transports sessionId \<noteq> Undefined then
         bnd (log_index E ''Reusing session'') (\<lambda>_.
           handled_or_500 E (handleRequest A E (js_get transports sessionId) sessionId req))
       else if sessionId = [] \<and> isInitializeRequest req then
         bnd (log_index E ''Initializing new session'') (\<lambda>_.
         bnd new_transport (\<lambda>h.
         bnd (log_index E ''Server instance created'') (\<lambda>_.
         bnd (log_index E ''Server connected to transport'') (\<lambda>_.
           handled_or_500 E (handleRequest_new A E h req)))))
       else
         bnd (log_index E ''Bad Request: No valid session ID provided'') (\<lambda>_.
           ret (JsonRpcError 400 (- 32000) ''Bad Request: No valid session ID provided''))))"

definition handleSessionRequest :: "app \<Rightarrow> env \<Rightarrow> http_request \<Rightarrow> (sessions, response) io" where
  "handleSessionRequest A E req =
     bnd (log_index E ''/mcp'') (\<lambda>_.
     bnd get_transports (\<lambda>transports.
       let sessionId = or_else (mcp_session_id req) [] in
       if sessionId = [] \<or> js_get transports sessionId = Undefined then
         bnd (log_index E ''Invalid or missing session ID'') (\<lambda>_.
           ret (PlainText 400 ''Invalid or missing session ID''))
       else
         catch
           (bnd (handleRequest A E (js_get transports sessionId) sessionId req) (\<lambda>r.
            bnd (log_index E ''Session request handled successfully'') (\<lambda>_. ret r)))
           (\<lambda>err. bnd (log_index E ''Session request handling error'') (\<lambda>_.
              ret (PlainText 500 ''Internal server error'')))))"

text \<open>The dispatcher: \<open>app.post\<close>, \<open>app.get\<close> and \<open>app.delete\<close> on the one path.\<close>

definition dispatch :: "app \<Rightarrow> env \<Rightarrow> http_request \<Rightarrow> (sessions, response) io" where
  "dispatch A E req =
     (case req_method req of
        POST \<Rightarrow> post_mcp A E req
      | _ \<Rightarrow> handleSessionRequest A E req)"


section \<open>What a run shows\<close>

text \<open>
  \<open>emits P m\<close>: whatever the world, the requests that \<open>m\<close> adds to those already sent all
  satisfy \<open>P\<close>. \<open>observe m w\<close> is what a run of \<open>m\<close> from \<open>w\<close> shows to its caller and
  to the remote side: the result, the requests sent and the session maps (everything but
  the console and the log file). \<open>sim m m'\<close>: from worlds that agree on the requests sent
  and the session maps, \<open>m\<close> and \<open>m'\<close> give the same result and again such worlds.
\<close>

definition is_draft :: "request \<Rightarrow> bool" where
  "is_draft r = (case r of DraftRequest _ _ _ _ \<Rightarrow> True | _ \<Rightarrow> False)"

definition draft_titled :: "string \<Rightarrow> request \<Rightarrow> bool" where
  "draft_titled t r = (case r of DraftRequest _ title _ _ \<Rightarrow> title = t | _ \<Rightarrow> True)"

definition emits :: "(request \<Rightarrow> bool) \<Rightarrow> ('a world_scheme, 'b) io \<Rightarrow> bool" where
  "emits P m = (\<forall>w. \<exists>rs. net (snd (m w)) = net w @ rs \<and> list_all P rs)"



text \<open>
  The \<open>src\<close> that the callback of \<open>uploadImages\<close> acts on: the \<open>src\<close> attribute of an
  \<open>img\<close> element, when it is there and not empty.
\<close>

definition usable_src :: "node \<Rightarrow> string option" where
  "usable_src n =
     (case n of
        Img attrs \<Rightarrow>
          (case getAttribute attrs ''src'' of
             Some s \<Rightarrow> if s = [] then None else Some s
           | None \<Rightarrow> None)
      | Other _ \<Rightarrow> None)"

definition is_img :: "node \<Rightarrow> bool" where
  "is_img n = (case n of Img _ \<Rightarrow> True | Other _ \<Rightarrow> False)"

definition set_src :: "node \<Rightarrow> string \<Rightarrow> node" where
  "set_src n v = (case n of Img attrs \<Rightarrow> Img (setAttribute attrs ''src'' v) | Other m \<Rightarrow> Other m)"


section \<open>A concrete environment\<close>

text \<open>
  An environment to run the program in: no default credentials, a host path mapping, a
  log file that cannot be written, a token endpoint that rejects empty credentials with
  the platform's error 41002 and otherwise answers with the token \<open>T\<close>, downloads and
  files that are there (except the empty path), an upload endpoint that answers with
  the media id \<open>id-NAME\<close> and an \<open>http://\<close> address, and a draft endpoint that accepts.
  The parser gives what jsdom gives on the three documents of the examples (an
  attribute without a value is the empty string), and one node of markup for a document
  without \<open>img\<close> elements; the serializer wraps the body as jsdom does. Pending uploads
  come to their end in document order.
\<close>

definition w0 :: world where
  "w0 = \<lparr>console = [], logfile = [], net = []\<rparr>"

definition s0 :: sessions where
  "s0 = \<lparr>console = [], logfile = [], net = [], transports = Map.empty, servers = Map.empty,
          created = 0\<rparr>"

definition serialize_attr :: "string \<times> string \<Rightarrow> string" where
  "serialize_attr a = '' '' @ fst a @ ''='' @ [CHR 0x22] @ snd a @ [CHR 0x22]"

definition serialize_node :: "node \<Rightarrow> string" where
  "serialize_node n =
     (case n of Img attrs \<Rightarrow> ''<img'' @ concat (map serialize_attr attrs) @ ''>'' | Other m \<Rightarrow> m)"

definition demo_serialize :: "node list \<Rightarrow> string" where
  "demo_serialize doc =
     ''<html><head></head><body>'' @ concat (map serialize_node doc) @ ''</body></html>''"

definition demo_parse :: "string \<Rightarrow> node list" where
  "demo_parse content =
     (if content = ''<p><img src=https://example.com/a.png></p>'' then
        [Other ''<p>'', Img [(''src'', ''https://example.com/a.png'')], Other ''</p>'']
      else if content = ''<img src><img src=a.png>'' then
        [Img [(''src'', [])], Img [(''src'', ''a.png'')]]
      else if content = ''<img src=https://mmbiz.qpic.cn/x><img src=b>'' then
        [Img [(''src'', ''https://mmbiz.qpic.cn/x'')], Img [(''src'', ''b'')]]
      else [Other content])"

definition demo_env :: env where
  "demo_env =
     \<lparr>WECHAT_APP_ID = None, WECHAT_APP_SECRET = None,
      HOST_IMAGE_PATH = Some ''/home/me/pics'',
      append_ok = (\<lambda>file line. False),
      token_api = (\<lambda>appid secret.
        if appid = [] \<or> secret = [] then
          Some \<lparr>access_token = None, token_errcode = Some 41002,
                token_errmsg = ''appid missing''\<rparr>
        else Some \<lparr>access_token = Some ''T'', token_errcode = None, token_errmsg = []\<rparr>),
      http_get = (\<lambda>u. Some \<lparr>download_ok = True, download_body = Some ''bytes''\<rparr>),
      file_from_path = (\<lambda>p. if p = [] then None else Some ''bytes''),
      upload_api = (\<lambda>type tok name data.
        Some \<lparr>upload_ok = True, upload_status = 200, upload_body = [],
              upload_data = \<lparr>upload_errcode = None, upload_errmsg = [],
                json_media_id = ''id-'' @ name,
                json_url = Some (''http://mmbiz.qpic.cn/'' @ name)\<rparr>\<rparr>),
      draft_api = (\<lambda>tok title content thumb.
        Some \<lparr>draft_media_id = Some ''draft-1'', draft_errcode = None, draft_errmsg = []\<rparr>),
      jsdom_parse = demo_parse, jsdom_serialize = demo_serialize,
      settle_order = (\<lambda>images. [])\<rparr>"

text \<open>
  The same, with an upload endpoint whose address is already secure and carries
  another address in its query.
\<close>

definition mirror_env :: env where
  "mirror_env =
     demo_env\<lparr>upload_api := (\<lambda>type tok name data.
        Some \<lparr>upload_ok = True, upload_status = 200, upload_body = [],
              upload_data = \<lparr>upload_errcode = None, upload_errmsg = [],
                json_media_id = ''id-'' @ name,
                json_url = Some ''https://mmbiz.qpic.cn/a?from=http://example.com/a''\<rparr>\<rparr>)\<rparr>"

definition demo_themes :: "(string \<times> Theme) list" where
  "demo_themes =
     [(''default'', \<lparr>theme_id = ''default'', theme_name = ''Default'',
                     theme_description = ''plain''\<rparr>),
      (''orangeheart'', \<lparr>theme_id = ''orangeheart'', theme_name = ''Orange Heart'',
                         theme_description = ''warm''\<rparr>)]"

definition demo_app :: app where
  "demo_app =
     \<lparr>themes = demo_themes, toLowerCase = ascii_toLowerCase,
      handleFrontMatter = (\<lambda>c. \<lparr>fm_title = None, fm_cover = None, fm_body = c\<rparr>),
      renderMarkdown = (\<lambda>body theme. Some body),
      randomUUID = (\<lambda>n. ''session-'' @ replicate n (CHR ''i'')),
      sdk_handleRequest = (\<lambda>h req.
        if req_method req = DELETE then Closed
        else if isInitializeRequest req then Initialized else Served)\<rparr>"

text \<open>
  \<open>demo_app\<close> has two themes, folds the letters A to Z, finds no front matter, renders
  the body as it is whatever the theme, and closes a transport on \<open>DELETE\<close>.
  \<open>strict_app\<close> is the same with a renderer that throws when it is given no theme id.
\<close>

definition strict_app :: app where
  "strict_app =
     demo_app\<lparr>renderMarkdown := (\<lambda>body theme. case theme of None \<Rightarrow> None | Some t \<Rightarrow> Some body)\<rparr>"

text \<open>
  \<open>two_images_env\<close> parses every input to a document of two images, a local one and
  a remote one, of which the second comes to its end first. \<open>racing_env\<close> is the same
  with nothing that can be fetched or read, so that both uploads fail.
\<close>

definition two_images_env :: env where
  "two_images_env =
     demo_env\<lparr>jsdom_parse := (\<lambda>content.
         [Img [(''src'', ''/srv/a.png'')], Img [(''src'', ''https://example.com/b.png'')]]),
       settle_order := (\<lambda>images. [1, 0])\<rparr>"

definition racing_env :: env where
  "racing_env = two_images_env\<lparr>http_get := (\<lambda>u. None), file_from_path := (\<lambda>p. None)\<rparr>"


section \<open>What relocation does to one node\<close>

text \<open>
  \<open>uploaded E token s\<close> is the outcome of uploading the image at \<open>s\<close> under the name
  taken from \<open>s\<close>; it is the same in every world (\<open>uploadImage_outcome\<close>).
  \<open>relocated E token n out\<close> says what relocation makes of the node \<open>n\<close>, the node as it
  is left and the value kept for it: a node without a usable \<open>src\<close> is left alone and
  gives no value; an \<open>img\<close> on the platform's CDN is left alone and gives its \<open>src\<close>; any
  other \<open>img\<close> has its \<open>src\<close> set to the uploaded address and gives the media id.
\<close>

definition uploaded :: "env \<Rightarrow> string \<Rightarrow> string \<Rightarrow> error + UploadResponse" where
  "uploaded E accessToken s = fst (uploadImage E s accessToken None w0)"

definition relocated :: "env \<Rightarrow> string \<Rightarrow> node \<Rightarrow> node \<times> string option \<Rightarrow> bool" where
  "relocated E accessToken n out =
     (case usable_src n of
        None \<Rightarrow> out = (n, None)
      | Some s \<Rightarrow>
          if startsWith s cdnPrefix then out = (n, Some s)
          else (case uploaded E accessToken s of
                  Inl e \<Rightarrow> False
                | Inr resp \<Rightarrow> out = (set_src n (url resp), Some (media_id resp))))"


section \<open>Logging and sequencing\<close>

lemma log_publish_fst: "fst (log_publish E msg w) = Inr ()"
  by (simp add: log_publish_def bnd_def catch_def console_log_def appendFileSync_def)

lemma log_publish_net: "net (snd (log_publish E msg w)) = net w"
  by (simp add: log_publish_def bnd_def catch_def console_log_def appendFileSync_def)


lemma log_index_fst: "fst (log_index E msg w) = Inr ()"
  by (simp add: log_index_def bnd_def catch_def console_log_def appendFileSync_def ret_def)

lemma log_index_net: "net (snd (log_index E msg w)) = net w"
  by (simp add: log_index_def bnd_def catch_def console_log_def appendFileSync_def ret_def)

lemma log_index_more: "world.more (snd (log_index E msg w)) = world.more w"
  by (simp add: log_index_def bnd_def catch_def console_log_def appendFileSync_def ret_def)

lemma bnd_ret: "bnd (ret x) f = f x"
  by (simp add: bnd_def ret_def)

lemma bnd_throw: "bnd (throw e) f = throw e"
  by (simp add: bnd_def throw_def)

lemma bnd_log_publish: "bnd (log_publish E msg) f w = f () (snd (log_publish E msg w))"
  using log_publish_fst [of E msg w] by (cases "log_publish E msg w") (simp add: bnd_def)

lemma bnd_log_index: "bnd (log_index E msg) f w = f () (snd (log_index E msg w))"
  using log_index_fst [of E msg w] by (cases "log_index E msg w") (simp add: bnd_def)

lemma bnd_send: "bnd (send r) f w = f () (w\<lparr>net := net w @ [r]\<rparr>)"
  by (simp add: bnd_def send_def)

lemma bnd_run: "m w = (Inr x, w1) \<Longrightarrow> bnd m f w = f x w1"
  by (simp add: bnd_def)

lemma bnd_fail: "m w = (Inl e, w1) \<Longrightarrow> bnd m f w = (Inl e, w1)"
  by (simp add: bnd_def)

lemma bnd_InrD:
  assumes "bnd m f w = (Inr y, w')"
  shows "\<exists>x w1. m w = (Inr x, w1) \<and> f x w1 = (Inr y, w')"
proof -
  obtain r w1 where run: "m w = (r, w1)" by (cases "m w")
  with assms show ?thesis by (cases r) (auto simp: bnd_def)
qed


section \<open>The requests an operation sends\<close>

lemma emitsI: "(\<And>w. \<exists>rs. net (snd (m w)) = net w @ rs \<and> list_all P rs) \<Longrightarrow> emits P m"
  by (simp add: emits_def)

lemma emitsD: "emits P m \<Longrightarrow> \<exists>rs. net (snd (m w)) = net w @ rs \<and> list_all P rs"
  by (simp add: emits_def)

lemma emits_ret: "emits P (ret x)"
  by (simp add: emits_def ret_def)

lemma emits_throw: "emits P (throw e)"
  by (simp add: emits_def throw_def)

lemma emits_log_publish: "emits P (log_publish E msg)"
  by (simp add: emits_def log_publish_net)

lemma emits_log_index: "emits P (log_index E msg)"
  by (simp add: emits_def log_index_net)

lemma emits_send: "P r \<Longrightarrow> emits P (send r)"
  by (simp add: emits_def send_def)

lemma emits_bnd:
  assumes m: "emits P m" and f: "\<And>x. emits P (f x)"
  shows "emits P (bnd m f)"
proof (rule emitsI)
  fix w
  obtain r w1 where run: "m w = (r, w1)" by (cases "m w")
  from emitsD [OF m, of w] run obtain rs where rs: "net w1 = net w @ rs" "list_all P rs"
    by auto
  show "\<exists>rs. net (snd (bnd m f w)) = net w @ rs \<and> list_all P rs"
  proof (cases r)
    case (Inl e)
    with run rs show ?thesis by (auto simp: bnd_def)
  next
    case (Inr x)
    from emitsD [OF f, of x w1] obtain rs' where
      "net (snd (f x w1)) = net w1 @ rs'" "list_all P rs'" by auto
    with run rs Inr show ?thesis by (auto simp: bnd_def)
  qed
qed

lemma emits_catch:
  assumes m: "emits P m" and h: "\<And>e. emits P (h e)"
  shows "emits P (catch m h)"
proof (rule emitsI)
  fix w
  obtain r w1 where run: "m w = (r, w1)" by (cases "m w")
  from emitsD [OF m, of w] run obtain rs where rs: "net w1 = net w @ rs" "list_all P rs"
    by auto
  show "\<exists>rs. net (snd (catch m h w)) = net w @ rs \<and> list_all P rs"
  proof (cases r)
    case (Inr x)
    with run rs show ?thesis by (auto simp: catch_def)
  next
    case (Inl e)
    from emitsD [OF h, of e w1] obtain rs' where
      "net (snd (h e w1)) = net w1 @ rs'" "list_all P rs'" by auto
    with run rs Inl show ?thesis by (auto simp: catch_def)
  qed
qed

lemma emits_settle: "emits P m \<Longrightarrow> emits P (settle m)"
  by (auto simp: emits_def settle_def split: prod.split)
   (metis snd_conv)

lemmas emits_intros =
  emits_ret emits_throw emits_log_publish emits_log_index emits_send emits_bnd emits_catch
  emits_settle


lemma fetchAccessToken_emits:
  "(\<And>a s. P (TokenRequest a s)) \<Longrightarrow> emits P (fetchAccessToken E appid appsecret)"
  unfolding fetchAccessToken_def Let_def
  by (auto intro!: emits_intros split: option.split)

lemma uploadMaterial_emits:
  "(\<And>a b c d. P (UploadRequest a b c d)) \<Longrightarrow> emits P (uploadMaterial E t d n tok)"
  unfolding uploadMaterial_def Let_def
  by (auto intro!: emits_intros split: option.split)

lemma uploadImage_begin_emits:
  "(\<And>u. P (Download u)) \<Longrightarrow> (\<And>u. P (ReadFile u)) \<Longrightarrow> emits P (uploadImage_begin E u)"
  unfolding uploadImage_begin_def Let_def
  by (auto intro!: emits_intros)

lemma uploadImage_finish_emits:
  "(\<And>a b c d. P (UploadRequest a b c d)) \<Longrightarrow> emits P (uploadImage_finish E u tok fn)"
  unfolding uploadImage_finish_def Let_def
  by (auto intro!: emits_intros uploadMaterial_emits split: option.split)

lemma uploadImage_emits:
  "(\<And>a b c d. P (UploadRequest a b c d)) \<Longrightarrow> (\<And>u. P (Download u)) \<Longrightarrow> (\<And>u. P (ReadFile u))
   \<Longrightarrow> emits P (uploadImage E u tok fn)"
  unfolding uploadImage_def
  by (auto intro!: emits_intros uploadImage_begin_emits uploadImage_finish_emits)

lemma uploadPromise_begin_emits:
  "(\<And>u. P (Download u)) \<Longrightarrow> (\<And>u. P (ReadFile u)) \<Longrightarrow> emits P (uploadPromise_begin E n)"
  unfolding uploadPromise_begin_def
  by (auto intro!: emits_intros uploadImage_begin_emits split: option.split node.split)

lemma uploadPromise_finish_emits:
  "(\<And>a b c d. P (UploadRequest a b c d)) \<Longrightarrow> emits P (uploadPromise_finish E tok n)"
  unfolding uploadPromise_finish_def
  by (auto intro!: emits_intros uploadImage_finish_emits split: option.split node.split)

lemma begin_all_emits:
  "(\<And>u. P (Download u)) \<Longrightarrow> (\<And>u. P (ReadFile u)) \<Longrightarrow> emits P (begin_all E ns)"
  by (induction ns) (auto intro!: emits_intros uploadPromise_begin_emits)

lemma settle_all_emits:
  "(\<And>a b c d. P (UploadRequest a b c d)) \<Longrightarrow> emits P (settle_all E tok ns order)"
  by (induction order) (auto intro!: emits_intros uploadPromise_finish_emits)

lemma uploadPromises_emits:
  "(\<And>a b c d. P (UploadRequest a b c d)) \<Longrightarrow> (\<And>u. P (Download u)) \<Longrightarrow> (\<And>u. P (ReadFile u))
   \<Longrightarrow> emits P (uploadPromises E tok ns)"
  unfolding uploadPromises_def
  by (auto intro!: emits_intros begin_all_emits settle_all_emits)

lemma uploadImages_emits:
  "(\<And>a b c d. P (UploadRequest a b c d)) \<Longrightarrow> (\<And>u. P (Download u)) \<Longrightarrow> (\<And>u. P (ReadFile u))
   \<Longrightarrow> emits P (uploadImages E content tok)"
  unfolding uploadImages_def Let_def
  by (auto intro!: emits_intros uploadPromises_emits split: sum.split)


section \<open>Runs that differ in the log file only\<close>


























lemma more_transports: "world.more w = world.more w' \<Longrightarrow> transports w = transports w'"
  by (cases w, cases w') simp

lemma more_created: "world.more w = world.more w' \<Longrightarrow> created w = created w'"
  by (cases w, cases w') simp














section \<open>The access token\<close>

lemma fetchAccessToken_net:
  "net (snd (fetchAccessToken E appid appsecret w)) =
     net w @ [TokenRequest (or_else appid (or_else (WECHAT_APP_ID E) []))
                (or_else appsecret (or_else (WECHAT_APP_SECRET E) []))]"
  by (simp add: fetchAccessToken_def Let_def bnd_log_publish bnd_send log_publish_net
      throw_def ret_def split: option.split)

lemma fetchAccessToken_fst:
  "fst (fetchAccessToken E appid appsecret w) =
     (case token_api E (or_else appid (or_else (WECHAT_APP_ID E) []))
             (or_else appsecret (or_else (WECHAT_APP_SECRET E) [])) of
        None \<Rightarrow> Inl FetchFailed
      | Some data \<Rightarrow>
          if truthy_str (access_token data) then Inr data
          else if truthy_int (token_errcode data) then
            Inl (TokenApiError (int_of (token_errcode data)) (token_errmsg data))
          else Inl TokenUnknownError)"
  by (simp add: fetchAccessToken_def Let_def bnd_log_publish bnd_send log_publish_net
      throw_def ret_def split: option.split)

text \<open>
  C4, as the code has it. The credentials passed with the call, when not empty, come
  before the defaults of the process environment, and the empty string stands in when
  both are missing. There is no check of the credentials: the token request is sent in
  every case, with whatever results, and the outcome is the remote's answer: the token
  data when it holds a token, an error with the remote's code and message when it holds
  an error code, an unknown-answer error otherwise (and a failed request as such).
\<close>

theorem fetchAccessToken_always_asks:
  "net (snd (fetchAccessToken E appid appsecret w)) =
     net w @ [TokenRequest (or_else appid (or_else (WECHAT_APP_ID E) []))
                (or_else appsecret (or_else (WECHAT_APP_SECRET E) []))] \<and>
   fst (fetchAccessToken E appid appsecret w) =
     (case token_api E (or_else appid (or_else (WECHAT_APP_ID E) []))
             (or_else appsecret (or_else (WECHAT_APP_SECRET E) [])) of
        None \<Rightarrow> Inl FetchFailed
      | Some data \<Rightarrow>
          if truthy_str (access_token data) then Inr data
          else if truthy_int (token_errcode data) then
            Inl (TokenApiError (int_of (token_errcode data)) (token_errmsg data))
          else Inl TokenUnknownError) \<and>
   (\<forall>a d. a \<noteq> [] \<longrightarrow> or_else (Some a) d = a) \<and>
   (\<forall>d. or_else None d = d \<and> or_else (Some []) d = d)"
  by (simp add: fetchAccessToken_net fetchAccessToken_fst or_else_def)

theorem fetchAccessToken_always_asks_witness:
  "net (snd (fetchAccessToken (demo_env\<lparr>WECHAT_APP_ID := Some ''wx-env''\<rparr>)
          None (Some ''s3'') w0)) = [TokenRequest ''wx-env'' ''s3''] \<and>
   fst (fetchAccessToken (demo_env\<lparr>WECHAT_APP_ID := Some ''wx-env''\<rparr>)
          None (Some ''s3'') w0) =
     Inr \<lparr>access_token = Some ''T'', token_errcode = None, token_errmsg = []\<rparr> \<and>
   or_else (Some ''wx-call'') (or_else (Some ''wx-env'') []) = ''wx-call''"
  using fetchAccessToken_always_asks
    [of "demo_env\<lparr>WECHAT_APP_ID := Some ''wx-env''\<rparr>" None "Some ''s3''" w0]
  by (simp add: demo_env_def w0_def or_else_def truthy_str_def)

text \<open>
  C4 as stated fails: with no credentials from either source the call does not stop
  before the exchange. The request is sent with an empty id and secret, and the error of
  the call is the one the remote answers with.
\<close>

theorem fetchAccessToken_no_credential_check:
  "WECHAT_APP_ID demo_env = None \<and> WECHAT_APP_SECRET demo_env = None \<and>
   fst (fetchAccessToken demo_env None None w0) = Inl (TokenApiError 41002 ''appid missing'') \<and>
   net (snd (fetchAccessToken demo_env None None w0)) = [TokenRequest [] []]"
  by (simp add: fetchAccessToken_net fetchAccessToken_fst demo_env_def w0_def or_else_def
      truthy_str_def truthy_int_def int_of_def)


section \<open>The uploaded address\<close>

lemma uploadMaterial_fst:
  "fst (uploadMaterial E type fileData fileName accessToken w) =
     (case upload_api E type accessToken fileName fileData of
        None \<Rightarrow> Inl FetchFailed
      | Some response \<Rightarrow>
          if \<not> upload_ok response then
            Inl (UploadFailed (upload_status response) (upload_body response))
          else if truthy_int (upload_errcode (upload_data response)) then
            Inl (UploadApiError (int_of (upload_errcode (upload_data response)))
                   (upload_errmsg (upload_data response)))
          else (case json_url (upload_data response) of
                  None \<Rightarrow> Inl UploadUrlMissing
                | Some u \<Rightarrow>
                    Inr \<lparr>media_id = json_media_id (upload_data response),
                         url = replace u ''http://'' ''https://''\<rparr>))"
  by (simp add: uploadMaterial_def Let_def bnd_log_publish bnd_send throw_def ret_def
      split: option.split)

lemma uploadMaterial_net:
  "net (snd (uploadMaterial E type fileData fileName accessToken w)) =
     net w @ [UploadRequest type accessToken fileName fileData]"
  by (simp add: uploadMaterial_def Let_def bnd_log_publish bnd_send throw_def ret_def
      log_publish_net split: option.split)

lemma replace_prefix: "prefix pat s \<Longrightarrow> replace s pat rep = rep @ drop (length pat) s"
  by (cases s) auto

lemma replace_absent: "\<not> str_includes s pat \<Longrightarrow> replace s pat rep = s"
  by (induction s) auto

lemma replace_never_http:
  "\<not> prefix ''http://'' (replace u ''http://'' ''https://'')"
proof (cases "prefix ''http://'' u")
  case True
  then show ?thesis by (simp add: replace_prefix)
next
  case False
  show ?thesis
  proof
    assume p: "prefix ''http://'' (replace u ''http://'' ''https://'')"
    then obtain c1 u1 where u: "u = c1 # u1" by (cases u) auto
    with False p have 1: "c1 = CHR ''h''" "prefix ''ttp://'' (replace u1 ''http://'' ''https://'')"
      by auto
    then obtain c2 u2 where u1: "u1 = c2 # u2" by (cases u1) auto
    with 1 have 2: "c2 = CHR ''t''" "prefix ''tp://'' (replace u2 ''http://'' ''https://'')"
      by (auto split: if_splits)
    then obtain c3 u3 where u2: "u2 = c3 # u3" by (cases u2) auto
    with 2 have 3: "c3 = CHR ''t''" "prefix ''p://'' (replace u3 ''http://'' ''https://'')"
      by (auto split: if_splits)
    then obtain c4 u4 where u3: "u3 = c4 # u4" by (cases u3) auto
    with 3 have 4: "c4 = CHR ''p''" "prefix ''://'' (replace u4 ''http://'' ''https://'')"
      by (auto split: if_splits)
    then obtain c5 u5 where u4: "u4 = c5 # u5" by (cases u4) auto
    with 4 have 5: "c5 = CHR '':''" "prefix ''//'' (replace u5 ''http://'' ''https://'')"
      by (auto split: if_splits)
    then obtain c6 u6 where u5: "u5 = c6 # u6" by (cases u5) auto
    with 5 have 6: "c6 = CHR ''/''" "prefix ''/'' (replace u6 ''http://'' ''https://'')"
      by (auto split: if_splits)
    then obtain c7 u7 where u6: "u6 = c7 # u7" by (cases u6) auto
    with 6 have 7: "c7 = CHR ''/''"
      by (auto split: if_splits)
    with u u1 u2 u3 u4 u5 u6 1 2 3 4 5 6 False show False by simp
  qed
qed

lemma uploadMaterial_url_never_http:
  "fst (uploadMaterial E type fileData fileName accessToken w) = Inr resp \<Longrightarrow>
   \<not> startsWith (url resp) ''http://''"
  by (auto simp: uploadMaterial_fst startsWith_def replace_never_http
      split: option.splits if_splits)

text \<open>
  C2. The address of a successful \<open>uploadMaterial\<close> never begins with \<open>http://\<close>
  (\<open>uploadMaterial_url_never_http\<close>), and an address that begins with it has this prefix
  replaced (\<open>replace_prefix\<close>). But the rewriting is not of the prefix only: \<open>replace\<close>
  rewrites the first occurrence wherever it stands. When the remote answers with an
  address that is secure already and carries an \<open>http://\<close> address in its query, the
  query is rewritten.
\<close>

theorem uploadMaterial_rewrites_inner_address:
  "map_option (\<lambda>response. json_url (upload_data response))
     (upload_api mirror_env ''image'' ''T'' ''a.png'' ''bytes'') =
     Some (Some ''https://mmbiz.qpic.cn/a?from=http://example.com/a'') \<and>
   fst (uploadMaterial mirror_env ''image'' ''bytes'' ''a.png'' ''T'' w0) =
     Inr \<lparr>media_id = ''id-a.png'',
          url = ''https://mmbiz.qpic.cn/a?from=https://example.com/a''\<rparr>"
  by (simp add: uploadMaterial_fst mirror_env_def demo_env_def truthy_int_def)


section \<open>Running the pipeline step by step\<close>

lemma bnd_split:
  "bnd m f w = (case fst (m w) of Inl e \<Rightarrow> (Inl e, snd (m w)) | Inr x \<Rightarrow> f x (snd (m w)))"
  by (cases "m w") (simp add: bnd_def split: sum.split)

lemma settle_split: "settle m w = (Inr (fst (m w)), snd (m w))"
  by (cases "m w") (simp add: settle_def)

lemma catch_split:
  "catch m h w = (case fst (m w) of Inl e \<Rightarrow> h e (snd (m w)) | Inr x \<Rightarrow> (Inr x, snd (m w)))"
  by (cases "m w") (simp add: catch_def split: sum.split)

lemma bnd_assoc: "bnd (bnd m f) g = bnd m (\<lambda>x. bnd (f x) g)"
  by (rule ext) (simp add: bnd_def split: prod.split sum.split)

lemma uploadImage_whole:
  "uploadImage E imageUrl accessToken fileName =
     bnd (log_publish E ''Uploading image'') (\<lambda>_.
       if startsWith imageUrl ''http'' then
         bnd (send (Download imageUrl)) (\<lambda>_.
           case http_get E imageUrl of
             None \<Rightarrow> throw FetchFailed
           | Some response \<Rightarrow>
               (case (if download_ok response then download_body response else None) of
                  None \<Rightarrow>
                    bnd (log_publish E ''Failed to download image from URL'') (\<lambda>_.
                      throw (ImageDownloadFailed imageUrl))
                | Some buffer \<Rightarrow>
                    let fileNameFromUrl = basename (split_head (CHR ''?'') imageUrl);
                        imageName = imageName_of fileName fileNameFromUrl
                    in uploadMaterial E ''image'' buffer imageName accessToken))
       else
         let localImagePath = localImagePath_of E imageUrl;
             fileNameFromLocal = basename localImagePath;
             imageName = imageName_of fileName fileNameFromLocal
         in bnd (send (ReadFile localImagePath)) (\<lambda>_.
              case file_from_path E localImagePath of
                None \<Rightarrow> throw (FileNotFound localImagePath)
              | Some file \<Rightarrow> uploadMaterial E ''image'' file imageName accessToken))"
  by (cases "startsWith imageUrl ''http''")
    (simp_all add: uploadImage_def uploadImage_begin_def uploadImage_finish_def Let_def
      bnd_assoc)

lemma uploadImage_begin_fst: "fst (uploadImage_begin E imageUrl w) = Inr ()"
  by (simp add: uploadImage_begin_def Let_def bnd_log_publish send_def)

lemma uploadImage_begin_net:
  "net (snd (uploadImage_begin E imageUrl w)) =
     net w @
     [if startsWith imageUrl ''http'' then Download imageUrl
      else ReadFile (localImagePath_of E imageUrl)]"
  by (simp add: uploadImage_begin_def Let_def bnd_log_publish send_def log_publish_net)

lemma uploadImage_finish_fst:
  "fst (uploadImage_finish E imageUrl accessToken fileName w) =
     (if startsWith imageUrl ''http'' then
        (case http_get E imageUrl of
           None \<Rightarrow> Inl FetchFailed
         | Some response \<Rightarrow>
             (case (if download_ok response then download_body response else None) of
                None \<Rightarrow> Inl (ImageDownloadFailed imageUrl)
              | Some buffer \<Rightarrow>
                  fst (uploadMaterial E ''image'' buffer
                         (imageName_of fileName (basename (split_head (CHR ''?'') imageUrl)))
                         accessToken w)))
      else
        (case file_from_path E (localImagePath_of E imageUrl) of
           None \<Rightarrow> Inl (FileNotFound (localImagePath_of E imageUrl))
         | Some file \<Rightarrow>
             fst (uploadMaterial E ''image'' file
                    (imageName_of fileName (basename (localImagePath_of E imageUrl)))
                    accessToken w)))"
  by (simp add: uploadImage_finish_def Let_def bnd_log_publish throw_def uploadMaterial_fst
      split: option.split)

lemma uploadImage_finish_net:
  "net (snd (uploadImage_finish E imageUrl accessToken fileName w)) =
     net w @
     (if startsWith imageUrl ''http'' then
        (case http_get E imageUrl of
           None \<Rightarrow> []
         | Some response \<Rightarrow>
             (case (if download_ok response then download_body response else None) of
                None \<Rightarrow> []
              | Some buffer \<Rightarrow>
                  [UploadRequest ''image'' accessToken
                     (imageName_of fileName (basename (split_head (CHR ''?'') imageUrl)))
                     buffer]))
      else
        (case file_from_path E (localImagePath_of E imageUrl) of
           None \<Rightarrow> []
         | Some file \<Rightarrow>
             [UploadRequest ''image'' accessToken
                (imageName_of fileName (basename (localImagePath_of E imageUrl))) file]))"
  by (simp add: uploadImage_finish_def Let_def bnd_log_publish throw_def uploadMaterial_net
      log_publish_net split: option.split)

lemma uploadImage_fst:
  "fst (uploadImage E imageUrl accessToken fileName w) =
     (if startsWith imageUrl ''http'' then
        (case http_get E imageUrl of
           None \<Rightarrow> Inl FetchFailed
         | Some response \<Rightarrow>
             (case (if download_ok response then download_body response else None) of
                None \<Rightarrow> Inl (ImageDownloadFailed imageUrl)
              | Some buffer \<Rightarrow>
                  fst (uploadMaterial E ''image'' buffer
                         (imageName_of fileName (basename (split_head (CHR ''?'') imageUrl)))
                         accessToken w)))
      else
        (case file_from_path E (localImagePath_of E imageUrl) of
           None \<Rightarrow> Inl (FileNotFound (localImagePath_of E imageUrl))
         | Some file \<Rightarrow>
             fst (uploadMaterial E ''image'' file
                    (imageName_of fileName (basename (localImagePath_of E imageUrl)))
                    accessToken w)))"
  by (simp add: uploadImage_def bnd_split uploadImage_begin_fst uploadImage_finish_fst
      uploadMaterial_fst split: option.split)

lemma uploadImage_net:
  "net (snd (uploadImage E imageUrl accessToken fileName w)) =
     net w @
     (if startsWith imageUrl ''http'' then
        Download imageUrl #
        (case http_get E imageUrl of
           None \<Rightarrow> []
         | Some response \<Rightarrow>
             (case (if download_ok response then download_body response else None) of
                None \<Rightarrow> []
              | Some buffer \<Rightarrow>
                  [UploadRequest ''image'' accessToken
                     (imageName_of fileName (basename (split_head (CHR ''?'') imageUrl)))
                     buffer]))
      else
        ReadFile (localImagePath_of E imageUrl) #
        (case file_from_path E (localImagePath_of E imageUrl) of
           None \<Rightarrow> []
         | Some file \<Rightarrow>
             [UploadRequest ''image'' accessToken
                (imageName_of fileName (basename (localImagePath_of E imageUrl))) file]))"
  by (simp add: uploadImage_def bnd_split uploadImage_begin_fst uploadImage_begin_net
      uploadImage_finish_net split: option.split)

lemma uploadImages_fast:
  assumes "\<not> str_includes content ''<img''"
  shows "fst (uploadImages E content accessToken w) = Inr \<lparr>html = content, firstImageId = []\<rparr>"
    and "net (snd (uploadImages E content accessToken w)) = net w"
  using assms by (simp_all add: uploadImages_def bnd_log_publish ret_def log_publish_net)

lemmas run_simps =
  bnd_split settle_split catch_split log_publish_fst log_publish_net log_index_fst log_index_net
  fetchAccessToken_fst fetchAccessToken_net uploadMaterial_fst uploadMaterial_net
  uploadImage_fst uploadImage_net uploadImage_begin_fst uploadImage_begin_net
  uploadImage_finish_fst uploadImage_finish_net ret_def throw_def send_def

lemmas upload_simps =
  uploadPromises_def uploadPromise_begin_def uploadPromise_finish_def settle_order_of_def
  promise_all_def

lemmas demo_simps =
  demo_env_def demo_parse_def w0_def or_else_def truthy_str_def truthy_int_def int_of_def
  startsWith_def cdnPrefix_def imageName_of_def localImagePath_of_def basename_def extname_def
  split_head_def dockerImagePath_def getAttribute_def first_or_empty_def

lemma demo_images_fst:
  "fst (uploadImages demo_env ''<p><img src=https://example.com/a.png></p>'' ''T'' w) =
     Inr \<lparr>html = demo_serialize [Other ''<p>'', Img [(''src'', ''https://mmbiz.qpic.cn/a.png'')],
                    Other ''</p>''],
          firstImageId = ''id-a.png''\<rparr>"
  by (simp add: uploadImages_def upload_simps run_simps demo_simps)

lemma demo_images_net:
  "net (snd (uploadImages demo_env ''<p><img src=https://example.com/a.png></p>'' ''T'' w)) =
     net w @ [Download ''https://example.com/a.png'',
              UploadRequest ''image'' ''T'' ''a.png'' ''bytes'']"
  by (simp add: uploadImages_def upload_simps run_simps demo_simps)



section \<open>The theme of an article\<close>

lemma resolveTheme_absent: "resolveTheme A [] = js_get (map_of (themes A)) ''default''"
  by (simp add: resolveTheme_def)

lemma resolveTheme_given:
  "t \<noteq> [] \<Longrightarrow> resolveTheme A t =
     (case map_of (themes A) t of
        Some th \<Rightarrow> Own th
      | None \<Rightarrow>
          if t \<in> set object_prototype_keys then Inherited
          else (case find (\<lambda>th. toLowerCase A (theme_name th) = toLowerCase A t)
                       (map snd (themes A)) of
                  None \<Rightarrow> Undefined
                | Some th \<Rightarrow> Own th))"
  by (simp add: resolveTheme_def js_get_def split: option.split)

lemma resolveTheme_inherited:
  "t \<in> set object_prototype_keys \<Longrightarrow> map_of (themes A) t = None \<Longrightarrow>
   resolveTheme A t = Inherited"
  by (auto simp: resolveTheme_def js_get_def object_prototype_keys_def)

lemma call_tool_invalid_theme:
  assumes "resolveTheme A (or_else (arg_theme_id args) []) = Undefined"
  shows "fst (call_tool A E ''publish_article'' args w) = Inl InvalidThemeID"
    and "net (snd (call_tool A E ''publish_article'' args w)) = net w"
  using assms
  by (simp_all add: call_tool_def Let_def bnd_log_index throw_def log_index_net)

lemma call_tool_theme:
  assumes "resolveTheme A (or_else (arg_theme_id args) []) = Own th"
  shows "call_tool A E ''publish_article'' args w =
     publishArticle A E (Some (theme_id th)) args
       (snd (log_index E ''CallToolRequestSchema called'' w))"
  using assms by (simp add: call_tool_def Let_def bnd_log_index)

lemma call_tool_inherited:
  assumes "resolveTheme A (or_else (arg_theme_id args) []) = Inherited"
  shows "call_tool A E ''publish_article'' args w =
     publishArticle A E None args (snd (log_index E ''CallToolRequestSchema called'' w))"
  using assms by (simp add: call_tool_def Let_def bnd_log_index)

lemma call_tool_inherited_name:
  assumes "arg_theme_id args = Some t" "t \<in> set object_prototype_keys"
    "map_of (themes A) t = None"
  shows "call_tool A E ''publish_article'' args w =
     publishArticle A E None args (snd (log_index E ''CallToolRequestSchema called'' w))"
proof -
  from assms(2) have "t \<noteq> []" by (auto simp: object_prototype_keys_def)
  with assms have "resolveTheme A (or_else (arg_theme_id args) []) = Inherited"
    by (simp add: or_else_def resolveTheme_inherited)
  then show ?thesis by (rule call_tool_inherited)
qed

lemma demo_theme_lookup:
  "resolveTheme demo_app (or_else None []) =
     Own \<lparr>theme_id = ''default'', theme_name = ''Default'', theme_description = ''plain''\<rparr> \<and>
   resolveTheme demo_app (or_else (Some ''orangeheart'') []) =
     Own \<lparr>theme_id = ''orangeheart'', theme_name = ''Orange Heart'',
          theme_description = ''warm''\<rparr> \<and>
   resolveTheme demo_app (or_else (Some ''ORANGE heart'') []) =
     Own \<lparr>theme_id = ''orangeheart'', theme_name = ''Orange Heart'',
          theme_description = ''warm''\<rparr> \<and>
   resolveTheme demo_app (or_else (Some ''nosuch'') []) = Undefined"
  by (simp add: resolveTheme_def js_get_def object_prototype_keys_def demo_app_def
      demo_themes_def or_else_def ascii_toLowerCase_def lower_char_def)

lemmas demo_call_simps =
  call_tool_def publishArticle_def publishToDraft_def resolveTheme_def js_get_def
  object_prototype_keys_def Let_def demo_app_def strict_app_def demo_themes_def
  ascii_toLowerCase_def lower_char_def run_simps demo_images_fst demo_images_net
  or_else_def truthy_str_def truthy_int_def startsWith_def cdnPrefix_def
  demo_env_def [THEN arg_cong, of token_api] demo_env_def [THEN arg_cong, of draft_api]
  demo_env_def [THEN arg_cong, of WECHAT_APP_ID]
  demo_env_def [THEN arg_cong, of WECHAT_APP_SECRET]

text \<open>
  C3 is not what the code does on a theme id that names a member which every
  JavaScript object inherits. The registry of \<open>demo_app\<close> has no theme with the id
  \<open>constructor\<close> and none whose name is \<open>constructor\<close> up to the case of letters, so the
  id resolves neither way. Yet \<open>themes["constructor"]\<close> is the inherited constructor
  function, which is truthy: the lookup stops there, the invalid-theme error is not
  thrown, and the call goes on with \<open>theme.id\<close> undefined. With a renderer that renders
  whatever the theme the article is published (token, download, upload and draft
  requests are sent); with a renderer that throws on a missing theme id the call fails
  with the renderer's error. In neither case does it fail with the invalid-theme error
  that the claim asks for.
\<close>

theorem inherited_theme_id_not_rejected:
  "map_of (themes demo_app) ''constructor'' = None \<and>
   find (\<lambda>theme. toLowerCase demo_app (theme_name theme) = toLowerCase demo_app ''constructor'')
     (map snd (themes demo_app)) = None \<and>
   resolveTheme demo_app ''constructor'' = Inherited \<and>
   fst (call_tool demo_app demo_env ''publish_article''
          \<lparr>arg_content = Some ''<p><img src=https://example.com/a.png></p>'',
           arg_theme_id = Some ''constructor'', arg_appid = Some ''wx'',
           arg_appsecret = Some ''s3''\<rparr> w0) = Inr (Published ''draft-1'') \<and>
   net (snd (call_tool demo_app demo_env ''publish_article''
          \<lparr>arg_content = Some ''<p><img src=https://example.com/a.png></p>'',
           arg_theme_id = Some ''constructor'', arg_appid = Some ''wx'',
           arg_appsecret = Some ''s3''\<rparr> w0)) =
     [TokenRequest ''wx'' ''s3'', Download ''https://example.com/a.png'',
      UploadRequest ''image'' ''T'' ''a.png'' ''bytes'',
      DraftRequest ''T'' ''this is title''
        (demo_serialize [Other ''<p>'', Img [(''src'', ''https://mmbiz.qpic.cn/a.png'')],
           Other ''</p>''])
        ''id-a.png''] \<and>
   fst (call_tool strict_app demo_env ''publish_article''
          \<lparr>arg_content = Some ''<p><img src=https://example.com/a.png></p>'',
           arg_theme_id = Some ''constructor'', arg_appid = Some ''wx'',
           arg_appsecret = Some ''s3''\<rparr> w0) = Inl RenderFailed \<and>
   fst (call_tool demo_app demo_env ''publish_article''
          \<lparr>arg_content = Some ''<p><img src=https://example.com/a.png></p>'',
           arg_theme_id = Some ''nosuch'', arg_appid = Some ''wx'',
           arg_appsecret = Some ''s3''\<rparr> w0) = Inl InvalidThemeID"
  by (simp add: demo_call_simps w0_def)


section \<open>The cover of a draft\<close>

lemma filter_emitted: "list_all (\<lambda>r. \<not> P r) rs \<Longrightarrow> filter P rs = []"
  by (induction rs) auto

lemma no_draft_step:
  assumes "emits (\<lambda>r. \<not> is_draft r) m"
  shows "filter is_draft (net (snd (m w))) = filter is_draft (net w)"
  using emitsD [OF assms, of w] by (auto simp: filter_emitted)

lemma fetchAccessToken_no_draft:
  "filter is_draft (net (snd (fetchAccessToken E a s w))) = filter is_draft (net w)"
  by (rule no_draft_step) (simp add: fetchAccessToken_emits is_draft_def)

lemma uploadImages_no_draft:
  "filter is_draft (net (snd (uploadImages E c tok w))) = filter is_draft (net w)"
  by (rule no_draft_step) (simp add: uploadImages_emits is_draft_def)

lemma draft_outcome_net:
  "net (snd ((case draft_api E token title h thumb of
           None \<Rightarrow> throw FetchFailed
         | Some data \<Rightarrow>
             if truthy_str (draft_media_id data) then
               bnd (log_publish E ''Draft published'') (\<lambda>_. ret data)
             else if truthy_int (draft_errcode data) then
               bnd (log_publish E ''Draft publish error'') (\<lambda>_.
                 throw (DraftApiError (int_of (draft_errcode data)) (draft_errmsg data)))
             else
               bnd (log_publish E ''Draft publish unknown error'') (\<lambda>_.
                 throw DraftUnknownError)) w)) = net w"
  by (simp add: bnd_log_publish throw_def ret_def log_publish_net split: option.split)

text \<open>
  C1. Take a \<open>publishToDraft\<close> call whose token request and image relocation have
  succeeded, with the token \<open>accessToken\<close> and the relocation result \<open>r\<close>. If no cover is
  passed and the fallback media id of \<open>r\<close> is empty, the call fails with the
  missing-cover error and no draft request is sent. Conversely, a cover media id that is
  resolved and not empty is the one the draft request is sent with, right after the
  resolution: the media id of the explicit cover uploaded under the name \<open>cover.jpg\<close>;
  without an explicit cover, the media id of the fallback address uploaded under the
  name \<open>cover.jpg\<close> when the fallback is an address of the platform's CDN, and the
  fallback media id itself otherwise.
\<close>

theorem publishToDraft_cover:
  assumes token: "fetchAccessToken E appid appsecret
                    (snd (log_publish E ''Publishing to draft'' w)) = (Inr accessToken, w1)"
    and images: "uploadImages E content (or_else (access_token accessToken) []) w1 = (Inr r, w2)"
  shows
    "(cover = [] \<and> firstImageId r = [] \<longrightarrow>
        fst (publishToDraft E title content cover appid appsecret w) = Inl MissingCover \<and>
        filter is_draft (net (snd (publishToDraft E title content cover appid appsecret w))) =
          filter is_draft (net w)) \<and>
     (\<forall>resp w3. cover \<noteq> [] \<and>
        uploadImage E cover (or_else (access_token accessToken) []) (Some ''cover.jpg'') w2 =
          (Inr resp, w3) \<and> media_id resp \<noteq> [] \<longrightarrow>
        net (snd (publishToDraft E title content cover appid appsecret w)) =
          net w3 @ [DraftRequest (or_else (access_token accessToken) []) title (html r)
                      (media_id resp)]) \<and>
     (\<forall>resp w3. cover = [] \<and> startsWith (firstImageId r) cdnPrefix \<and>
        uploadImage E (firstImageId r) (or_else (access_token accessToken) [])
          (Some ''cover.jpg'') w2 = (Inr resp, w3) \<and> media_id resp \<noteq> [] \<longrightarrow>
        net (snd (publishToDraft E title content cover appid appsecret w)) =
          net w3 @ [DraftRequest (or_else (access_token accessToken) []) title (html r)
                      (media_id resp)]) \<and>
     (cover = [] \<and> firstImageId r \<noteq> [] \<and> \<not> startsWith (firstImageId r) cdnPrefix \<longrightarrow>
        net (snd (publishToDraft E title content cover appid appsecret w)) =
          net w2 @ [DraftRequest (or_else (access_token accessToken) []) title (html r)
                      (firstImageId r)])"
proof -
  let ?w0 = "snd (log_publish E ''Publishing to draft'' w)"
  have before: "filter is_draft (net w2) = filter is_draft (net w)"
  proof -
    from token have "w1 = snd (fetchAccessToken E appid appsecret ?w0)" by simp
    moreover from images
    have "w2 = snd (uploadImages E content (or_else (access_token accessToken) []) w1)" by simp
    ultimately show ?thesis
      by (simp add: uploadImages_no_draft fetchAccessToken_no_draft log_publish_net)
  qed
  have start: "publishToDraft E title content cover appid appsecret w =
     bnd (if cover \<noteq> [] then
            bnd (uploadImage E cover (or_else (access_token accessToken) []) (Some ''cover.jpg''))
              (\<lambda>resp. ret (media_id resp))
          else if startsWith (firstImageId r) cdnPrefix then
            bnd (uploadImage E (firstImageId r) (or_else (access_token accessToken) [])
                   (Some ''cover.jpg'')) (\<lambda>resp. ret (media_id resp))
          else ret (firstImageId r)) (\<lambda>thumbMediaId.
     if thumbMediaId = [] then
       bnd (log_publish E ''No cover image found'') (\<lambda>_. throw MissingCover)
     else
       bnd (send (DraftRequest (or_else (access_token accessToken) []) title (html r) thumbMediaId)) (\<lambda>_.
         case draft_api E (or_else (access_token accessToken) []) title (html r) thumbMediaId of
           None \<Rightarrow> throw FetchFailed
         | Some data \<Rightarrow>
             if truthy_str (draft_media_id data) then
               bnd (log_publish E ''Draft published'') (\<lambda>_. ret data)
             else if truthy_int (draft_errcode data) then
               bnd (log_publish E ''Draft publish error'') (\<lambda>_.
                 throw (DraftApiError (int_of (draft_errcode data)) (draft_errmsg data)))
             else
               bnd (log_publish E ''Draft publish unknown error'') (\<lambda>_.
                 throw DraftUnknownError))) w2"
    unfolding publishToDraft_def
    by (simp add: bnd_log_publish Let_def
        bnd_run [where m = "fetchAccessToken E appid appsecret", OF token]
        bnd_run [where m = "uploadImages E content (or_else (access_token accessToken) [])",
          OF images])
  show ?thesis
  proof (intro conjI allI impI)
    assume a: "cover = [] \<and> firstImageId r = []"
    then have run: "publishToDraft E title content cover appid appsecret w =
        (Inl MissingCover, snd (log_publish E ''No cover image found'' w2))"
      unfolding start
      by (simp add: startsWith_def cdnPrefix_def bnd_ret bnd_log_publish throw_def)
    show "fst (publishToDraft E title content cover appid appsecret w) = Inl MissingCover"
      by (simp add: run)
    show "filter is_draft (net (snd (publishToDraft E title content cover appid appsecret w))) =
          filter is_draft (net w)"
      by (simp add: run log_publish_net before)
  next
    fix resp w3
    assume a: "cover \<noteq> [] \<and>
        uploadImage E cover (or_else (access_token accessToken) []) (Some ''cover.jpg'') w2 =
          (Inr resp, w3) \<and> media_id resp \<noteq> []"
    then have up: "uploadImage E cover (or_else (access_token accessToken) []) (Some ''cover.jpg'') w2 =
          (Inr resp, w3)" by simp
    from a show "net (snd (publishToDraft E title content cover appid appsecret w)) =
          net w3 @ [DraftRequest (or_else (access_token accessToken) []) title (html r)
                      (media_id resp)]"
      unfolding start
      by (simp add: bnd_assoc bnd_run [where m = "uploadImage E cover (or_else (access_token accessToken) []) (Some ''cover.jpg'')", OF up] bnd_ret bnd_send draft_outcome_net)
  next
    fix resp w3
    assume a: "cover = [] \<and> startsWith (firstImageId r) cdnPrefix \<and>
        uploadImage E (firstImageId r) (or_else (access_token accessToken) [])
          (Some ''cover.jpg'') w2 = (Inr resp, w3) \<and> media_id resp \<noteq> []"
    then have up: "uploadImage E (firstImageId r) (or_else (access_token accessToken) [])
          (Some ''cover.jpg'') w2 = (Inr resp, w3)" by simp
    from a show "net (snd (publishToDraft E title content cover appid appsecret w)) =
          net w3 @ [DraftRequest (or_else (access_token accessToken) []) title (html r)
                      (media_id resp)]"
      unfolding start
      by (simp add: bnd_assoc bnd_run [where m = "uploadImage E (firstImageId r) (or_else (access_token accessToken) []) (Some ''cover.jpg'')", OF up] bnd_ret bnd_send draft_outcome_net)
  next
    assume a: "cover = [] \<and> firstImageId r \<noteq> [] \<and> \<not> startsWith (firstImageId r) cdnPrefix"
    then show "net (snd (publishToDraft E title content cover appid appsecret w)) =
          net w2 @ [DraftRequest (or_else (access_token accessToken) []) title (html r)
                      (firstImageId r)]"
      unfolding start
      by (simp add: bnd_ret bnd_send draft_outcome_net)
  qed
qed


theorem publishToDraft_cover_witness:
  "fst (publishToDraft demo_env ''Title'' ''<p>text</p>'' [] (Some ''wx'') (Some ''s3'') w0) =
     Inl MissingCover \<and>
   filter is_draft
     (net (snd (publishToDraft demo_env ''Title'' ''<p>text</p>'' [] (Some ''wx'') (Some ''s3'')
                  w0))) = [] \<and>
   net (snd (publishToDraft demo_env ''Title'' ''<p><img src=https://example.com/a.png></p>'' []
               (Some ''wx'') (Some ''s3'') w0)) =
     [TokenRequest ''wx'' ''s3'', Download ''https://example.com/a.png'',
      UploadRequest ''image'' ''T'' ''a.png'' ''bytes'',
      DraftRequest ''T'' ''Title''
        (demo_serialize [Other ''<p>'', Img [(''src'', ''https://mmbiz.qpic.cn/a.png'')],
           Other ''</p>'']) ''id-a.png''] \<and>
   net (snd (publishToDraft demo_env ''Title'' ''<p>text</p>'' ''/home/me/pics/c.png''
               (Some ''wx'') (Some ''s3'') w0)) =
     [TokenRequest ''wx'' ''s3'', ReadFile ''/mnt/host-downloads/c.png'',
      UploadRequest ''image'' ''T'' ''cover.jpg'' ''bytes'',
      DraftRequest ''T'' ''Title'' ''<p>text</p>'' ''id-cover.jpg'']"
proof -
  define tok where
    "tok = \<lparr>access_token = Some ''T'', token_errcode = None, token_errmsg = []\<rparr>"
  define wl where "wl = snd (log_publish demo_env ''Publishing to draft'' w0)"
  define w1 where "w1 = snd (fetchAccessToken demo_env (Some ''wx'') (Some ''s3'') wl)"
  define wa where "wa = snd (uploadImages demo_env ''<p>text</p>'' ''T'' w1)"
  define wb where
    "wb = snd (uploadImages demo_env ''<p><img src=https://example.com/a.png></p>'' ''T'' w1)"
  define wc where
    "wc = snd (uploadImage demo_env ''/home/me/pics/c.png'' ''T'' (Some ''cover.jpg'') wa)"
  have t: "or_else (access_token tok) [] = ''T''"
    by (simp add: tok_def or_else_def)
  have token: "fetchAccessToken demo_env (Some ''wx'') (Some ''s3'')
                 (snd (log_publish demo_env ''Publishing to draft'' w0)) = (Inr tok, w1)"
    by (simp add: prod_eq_iff fetchAccessToken_fst demo_simps tok_def w1_def wl_def)
  have a: "uploadImages demo_env ''<p>text</p>'' (or_else (access_token tok) []) w1 =
             (Inr \<lparr>html = ''<p>text</p>'', firstImageId = []\<rparr>, wa)"
    by (simp add: prod_eq_iff uploadImages_fast t wa_def)
  have b: "uploadImages demo_env ''<p><img src=https://example.com/a.png></p>''
             (or_else (access_token tok) []) w1 =
             (Inr \<lparr>html = demo_serialize [Other ''<p>'',
                      Img [(''src'', ''https://mmbiz.qpic.cn/a.png'')], Other ''</p>''],
                   firstImageId = ''id-a.png''\<rparr>, wb)"
    by (simp add: prod_eq_iff demo_images_fst t wb_def)
  have c: "uploadImage demo_env ''/home/me/pics/c.png'' (or_else (access_token tok) [])
             (Some ''cover.jpg'') wa =
             (Inr \<lparr>media_id = ''id-cover.jpg'', url = ''https://mmbiz.qpic.cn/cover.jpg''\<rparr>, wc)"
    unfolding t by (simp add: prod_eq_iff uploadImage_fst uploadMaterial_fst demo_simps wc_def)
  have n1: "net w1 = [TokenRequest ''wx'' ''s3'']"
    by (simp add: w1_def wl_def fetchAccessToken_net log_publish_net demo_simps)
  have nb: "net wb = [TokenRequest ''wx'' ''s3'', Download ''https://example.com/a.png'',
                      UploadRequest ''image'' ''T'' ''a.png'' ''bytes'']"
    by (simp add: wb_def demo_images_net n1)
  have nc: "net wc = [TokenRequest ''wx'' ''s3'', ReadFile ''/mnt/host-downloads/c.png'',
                      UploadRequest ''image'' ''T'' ''cover.jpg'' ''bytes'']"
    by (simp add: wc_def wa_def uploadImage_net uploadImages_fast n1 demo_simps)
  from publishToDraft_cover [OF token a, of "[]" "''Title''"]
    publishToDraft_cover [OF token b, of "[]" "''Title''"]
    publishToDraft_cover [OF token a, of "''/home/me/pics/c.png''" "''Title''"] c
  show ?thesis
    by (simp add: t nb nc startsWith_def cdnPrefix_def w0_def)
qed


section \<open>The title of a draft\<close>

lemma publishToDraft_emits_titled: "emits (draft_titled t) (publishToDraft E t c cv a s)"
  unfolding publishToDraft_def Let_def
  by (auto intro!: emits_intros fetchAccessToken_emits uploadImages_emits uploadImage_emits
      simp: draft_titled_def split: option.split)

lemma draft_outcome_last:
  assumes "(case draft_api E token title h thumb of
           None \<Rightarrow> throw FetchFailed
         | Some data \<Rightarrow>
             if truthy_str (draft_media_id data) then
               bnd (log_publish E ''Draft published'') (\<lambda>_. ret data)
             else if truthy_int (draft_errcode data) then
               bnd (log_publish E ''Draft publish error'') (\<lambda>_.
                 throw (DraftApiError (int_of (draft_errcode data)) (draft_errmsg data)))
             else
               bnd (log_publish E ''Draft publish unknown error'') (\<lambda>_.
                 throw DraftUnknownError)) w = (r, w')"
  shows "net w' = net w"
  using draft_outcome_net [of E token title h thumb w] assms by simp

lemma publishToDraft_success_last:
  assumes "publishToDraft E t c cv a s w = (Inr d, w')"
  shows "\<exists>pre tok h m. net w' = pre @ [DraftRequest tok t h m]"
  using assms unfolding publishToDraft_def Let_def
  apply (simp only: bnd_log_publish)
  apply (drule bnd_InrD, clarify)
  apply (drule bnd_InrD, clarify)
  apply (drule bnd_InrD, clarify)
  apply (simp add: bnd_log_publish bnd_send throw_def split: if_splits)
    apply (auto dest!: draft_outcome_last)
  done

lemma publishArticle_emits_titled:
  assumes "fm_title (handleFrontMatter A (or_else (arg_content args) [])) = None"
  shows "emits (draft_titled ''this is title'') (publishArticle A E th args)"
  using assms unfolding publishArticle_def Let_def
  by (auto intro!: emits_intros publishToDraft_emits_titled split: option.split)

lemma call_tool_emits_titled:
  assumes "fm_title (handleFrontMatter A (or_else (arg_content args) [])) = None"
  shows "emits (draft_titled ''this is title'') (call_tool A E ''publish_article'' args)"
  unfolding call_tool_def Let_def
  by (auto intro!: emits_intros publishArticle_emits_titled [OF assms] split: js_value.split)

lemma publishArticle_success_last:
  assumes none: "fm_title (handleFrontMatter A (or_else (arg_content args) [])) = None"
    and ok: "publishArticle A E th args w = (Inr res, w')"
  shows "\<exists>pre tok h m. net w' = pre @ [DraftRequest tok ''this is title'' h m]"
proof (cases "renderMarkdown A (fm_body (handleFrontMatter A (or_else (arg_content args) []))) th")
  case None
  then have "fst (publishArticle A E th args w) = Inl RenderFailed"
    by (simp add: publishArticle_def Let_def bnd_log_index throw_def)
  with ok have False by simp
  then show ?thesis ..
next
  case (Some rendered)
  let ?pre = "handleFrontMatter A (or_else (arg_content args) [])"
  let ?w2 = "snd (log_index E ''Markdown rendered'' (snd (log_index E ''FrontMatter handled'' w)))"
  let ?P = "publishToDraft E ''this is title'' rendered
              (case fm_cover ?pre of None \<Rightarrow> [] | Some c \<Rightarrow> c) (arg_appid args)
              (arg_appsecret args)"
  have eq: "publishArticle A E th args w =
      (case fst (?P ?w2) of
         Inl e \<Rightarrow> (Inl e, snd (log_index E ''Publish error'' (snd (?P ?w2))))
       | Inr d \<Rightarrow> (Inr (Published (or_else (draft_media_id d) [])),
                    snd (log_index E ''Article published'' (snd (?P ?w2)))))"
    by (simp add: publishArticle_def Let_def none Some bnd_log_index catch_split bnd_split
        log_index_fst ret_def throw_def split: sum.split)
  show ?thesis
  proof (cases "fst (?P ?w2)")
    case (Inl e)
    with ok eq have False by simp
    then show ?thesis ..
  next
    case (Inr d)
    with ok eq have "net w' = net (snd (?P ?w2))"
      by (auto simp: log_index_net)
    moreover from Inr have "?P ?w2 = (Inr d, snd (?P ?w2))"
      by (simp add: prod_eq_iff)
    from publishToDraft_success_last [OF this]
    obtain pre tok h m where "net (snd (?P ?w2)) = pre @ [DraftRequest tok ''this is title'' h m]"
      by blast
    ultimately show ?thesis by simp
  qed
qed

text \<open>
  C9. Take a \<open>publish_article\<close> call whose front matter gives no title. The call runs
  exactly as it would on a front matter that gives the title \<open>this is title\<close>: the same
  result and the same effects, so nothing tells the caller that a placeholder stood in,
  and no error comes from the missing title. Every draft request that the call sends
  carries the title \<open>this is title\<close>; and when the call succeeds (its answer names the
  media id only), the last request it has sent is the draft request with that title.
\<close>

theorem missing_title_placeholder:
  assumes none: "fm_title (handleFrontMatter A (or_else (arg_content args) [])) = None"
  shows
    "call_tool A E ''publish_article'' args w =
       call_tool
         (A\<lparr>handleFrontMatter :=
              \<lambda>c. (handleFrontMatter A c)\<lparr>fm_title := Some ''this is title''\<rparr>\<rparr>)
         E ''publish_article'' args w \<and>
     (\<exists>rs. net (snd (call_tool A E ''publish_article'' args w)) = net w @ rs \<and>
           list_all (draft_titled ''this is title'') rs) \<and>
     (\<forall>m. fst (call_tool A E ''publish_article'' args w) = Inr (Published m) \<longrightarrow>
        (\<exists>pre tok h thumb.
           net (snd (call_tool A E ''publish_article'' args w)) =
             pre @ [DraftRequest tok ''this is title'' h thumb]))"
proof (intro conjI allI impI)
  show "call_tool A E ''publish_article'' args w =
       call_tool
         (A\<lparr>handleFrontMatter :=
              \<lambda>c. (handleFrontMatter A c)\<lparr>fm_title := Some ''this is title''\<rparr>\<rparr>)
         E ''publish_article'' args w"
    (is "_ = call_tool ?A' _ _ _ _")
  proof -
    have r: "\<And>t. resolveTheme ?A' t = resolveTheme A t"
      by (simp add: resolveTheme_def cong: js_value.case_cong)
    have p: "\<And>th. publishArticle ?A' E th args = publishArticle A E th args"
      by (simp add: publishArticle_def Let_def none cong: option.case_cong)
    show ?thesis
      by (simp add: call_tool_def Let_def r p cong: js_value.case_cong)
  qed
  show "\<exists>rs. net (snd (call_tool A E ''publish_article'' args w)) = net w @ rs \<and>
           list_all (draft_titled ''this is title'') rs"
    by (rule emitsD [OF call_tool_emits_titled [OF none]])
next
  fix m
  assume ok: "fst (call_tool A E ''publish_article'' args w) = Inr (Published m)"
  let ?w1 = "snd (log_index E ''CallToolRequestSchema called'' w)"
  show "\<exists>pre tok h thumb.
           net (snd (call_tool A E ''publish_article'' args w)) =
             pre @ [DraftRequest tok ''this is title'' h thumb]"
  proof (cases "resolveTheme A (or_else (arg_theme_id args) [])")
    case Undefined
    with ok show ?thesis by (simp add: call_tool_invalid_theme)
  next
    case (Own th)
    then have eq: "call_tool A E ''publish_article'' args w =
        publishArticle A E (Some (theme_id th)) args ?w1"
      by (rule call_tool_theme)
    with ok have "publishArticle A E (Some (theme_id th)) args ?w1 =
        (Inr (Published m), snd (publishArticle A E (Some (theme_id th)) args ?w1))"
      by (simp add: prod_eq_iff)
    from publishArticle_success_last [OF none this] eq show ?thesis by simp
  next
    case Inherited
    then have eq: "call_tool A E ''publish_article'' args w = publishArticle A E None args ?w1"
      by (rule call_tool_inherited)
    with ok have "publishArticle A E None args ?w1 =
        (Inr (Published m), snd (publishArticle A E None args ?w1))"
      by (simp add: prod_eq_iff)
    from publishArticle_success_last [OF none this] eq show ?thesis by simp
  qed
qed

theorem missing_title_placeholder_witness:
  "fm_title (handleFrontMatter demo_app (or_else (Some ''<p><img src=https://example.com/a.png></p>'') [])) = None \<and>
   fst (call_tool demo_app demo_env ''publish_article''
          \<lparr>arg_content = Some ''<p><img src=https://example.com/a.png></p>'',
           arg_theme_id = None, arg_appid = Some ''wx'', arg_appsecret = Some ''s3''\<rparr> w0) =
     Inr (Published ''draft-1'') \<and>
   (\<exists>pre tok h thumb.
      net (snd (call_tool demo_app demo_env ''publish_article''
          \<lparr>arg_content = Some ''<p><img src=https://example.com/a.png></p>'',
           arg_theme_id = None, arg_appid = Some ''wx'', arg_appsecret = Some ''s3''\<rparr> w0)) =
      pre @ [DraftRequest tok ''this is title'' h thumb])"
proof -
  let ?args = "\<lparr>arg_content = Some ''<p><img src=https://example.com/a.png></p>'',
           arg_theme_id = None, arg_appid = Some ''wx'', arg_appsecret = Some ''s3''\<rparr>"
  have none: "fm_title (handleFrontMatter demo_app (or_else (arg_content ?args) [])) = None"
    by (simp add: demo_app_def)
  have ok: "fst (call_tool demo_app demo_env ''publish_article'' ?args w0) =
     Inr (Published ''draft-1'')"
    by (simp add: demo_call_simps)
  from missing_title_placeholder [OF none, of demo_env w0, THEN conjunct2, THEN conjunct2,
      rule_format, OF ok] none ok
  show ?thesis by (simp add: or_else_def)
qed


section \<open>Requests with an unknown session id\<close>

lemma more_servers: "world.more w = world.more w' \<Longrightarrow> servers w = servers w'"
  by (cases w, cases w') simp

lemma log_index_sessions:
  "transports (snd (log_index E msg w)) = transports w"
  "servers (snd (log_index E msg w)) = servers w"
  "created (snd (log_index E msg w)) = created w"
  using log_index_more [of E msg w]
  by (auto dest: more_transports more_servers more_created)

lemma throw_run: "throw e w = (Inl e, w)"
  by (simp add: throw_def)

lemma ret_run: "ret x w = (Inr x, w)"
  by (simp add: ret_def)

lemma bnd_get_transports: "bnd get_transports f w = f (transports w) w"
  by (simp add: bnd_def get_transports_def)

lemma post_mcp_unknown:
  assumes "mcp_session_id req = Some sid" "sid \<noteq> []" "transports w sid = None"
    "sid \<notin> set object_prototype_keys"
  shows "post_mcp A E req w =
     (Inr (JsonRpcError 400 (- 32000) ''Bad Request: No valid session ID provided''),
      snd (log_index E ''Bad Request: No valid session ID provided''
             (snd (log_index E ''POST /mcp'' w))))"
  using assms
  by (simp add: post_mcp_def Let_def bnd_log_index bnd_get_transports log_index_sessions
      or_else_def js_get_def ret_def)

lemma post_mcp_inherited:
  assumes "mcp_session_id req = Some sid" "sid \<noteq> []" "transports w sid = None"
    "sid \<in> set object_prototype_keys"
  shows "post_mcp A E req w =
     (Inr (JsonRpcError 500 (- 32001) ''Internal server error''),
      snd (log_index E ''Request handling error''
            (snd (log_index E ''Reusing session'' (snd (log_index E ''POST /mcp'' w))))))"
  using assms
  by (simp add: post_mcp_def Let_def bnd_log_index bnd_get_transports log_index_sessions
      or_else_def js_get_def handled_or_500_def handleRequest_def catch_split bnd_split
      throw_run ret_run log_index_fst get_transports_def)

lemma handleSessionRequest_unknown:
  assumes "mcp_session_id req = Some sid" "sid \<noteq> []" "transports w sid = None"
    "sid \<notin> set object_prototype_keys"
  shows "handleSessionRequest A E req w =
     (Inr (PlainText 400 ''Invalid or missing session ID''),
      snd (log_index E ''Invalid or missing session ID'' (snd (log_index E ''/mcp'' w))))"
  using assms
  by (simp add: handleSessionRequest_def Let_def bnd_log_index bnd_get_transports
      log_index_sessions or_else_def js_get_def ret_def)

lemma handleSessionRequest_inherited:
  assumes "mcp_session_id req = Some sid" "sid \<noteq> []" "transports w sid = None"
    "sid \<in> set object_prototype_keys"
  shows "handleSessionRequest A E req w =
     (Inr (PlainText 500 ''Internal server error''),
      snd (log_index E ''Session request handling error'' (snd (log_index E ''/mcp'' w))))"
  using assms
  by (simp add: handleSessionRequest_def Let_def bnd_log_index bnd_get_transports
      log_index_sessions or_else_def js_get_def handleRequest_def catch_split bnd_split
      throw_run ret_run log_index_fst get_transports_def)

text \<open>
  C7, as the code has it. Take a request that bears a session id that is not empty and
  has no entry in the map of transports. Whatever its method, the request creates no
  session, leaves both session maps as they are and sends nothing. When the id is not
  the name of a member of \<open>Object.prototype\<close>, a \<open>POST\<close> is answered with status 400
  and the protocol error of code \<open>-32000\<close>, and a \<open>GET\<close> or \<open>DELETE\<close> with status 400
  and the plain text "Invalid or missing session ID", which carries no error code.
\<close>

theorem unknown_session_rejected:
  assumes "mcp_session_id req = Some sid" and "sid \<noteq> []" and "transports w sid = None"
  shows
    "transports (snd (dispatch A E req w)) = transports w \<and>
     servers (snd (dispatch A E req w)) = servers w \<and>
     created (snd (dispatch A E req w)) = created w \<and>
     net (snd (dispatch A E req w)) = net w \<and>
     (sid \<notin> set object_prototype_keys \<longrightarrow>
        fst (dispatch A E req w) =
          (if req_method req = POST then
             Inr (JsonRpcError 400 (- 32000) ''Bad Request: No valid session ID provided'')
           else Inr (PlainText 400 ''Invalid or missing session ID'')))"
proof (cases "sid \<in> set object_prototype_keys")
  case True
  with assms show ?thesis
    by (cases "req_method req")
      (simp_all add: dispatch_def post_mcp_inherited handleSessionRequest_inherited
        log_index_sessions log_index_net)
next
  case False
  with assms show ?thesis
    by (cases "req_method req")
      (simp_all add: dispatch_def post_mcp_unknown handleSessionRequest_unknown
        log_index_sessions log_index_net)
qed

theorem unknown_session_rejected_witness:
  "fst (dispatch demo_app demo_env
          \<lparr>req_method = POST, mcp_session_id = Some ''abc'', isInitializeRequest = False\<rparr> s0) =
     Inr (JsonRpcError 400 (- 32000) ''Bad Request: No valid session ID provided'') \<and>
   fst (dispatch demo_app demo_env
          \<lparr>req_method = DELETE, mcp_session_id = Some ''abc'', isInitializeRequest = False\<rparr> s0) =
     Inr (PlainText 400 ''Invalid or missing session ID'') \<and>
   created (snd (dispatch demo_app demo_env
          \<lparr>req_method = POST, mcp_session_id = Some ''abc'', isInitializeRequest = False\<rparr> s0)) = 0"
  using
    unknown_session_rejected [of
      "\<lparr>req_method = POST, mcp_session_id = Some ''abc'', isInitializeRequest = False\<rparr>"
      "''abc''" s0 demo_app demo_env]
    unknown_session_rejected [of
      "\<lparr>req_method = DELETE, mcp_session_id = Some ''abc'', isInitializeRequest = False\<rparr>"
      "''abc''" s0 demo_app demo_env]
  by (simp add: s0_def object_prototype_keys_def)

text \<open>
  C7 as stated fails for the routes other than \<open>POST\<close>: a \<open>GET\<close> with an unknown session
  id is answered in plain text, not with the protocol error of code \<open>-32000\<close>.
\<close>

theorem unknown_session_get_plain_text:
  "transports s0 ''abc'' = None \<and>
   fst (dispatch demo_app demo_env
          \<lparr>req_method = GET, mcp_session_id = Some ''abc'', isInitializeRequest = False\<rparr> s0) =
     Inr (PlainText 400 ''Invalid or missing session ID'')"
  by (simp add: dispatch_def handleSessionRequest_unknown s0_def object_prototype_keys_def)

text \<open>
  The three lemmas below show the dispatcher at work on the other inputs: a session id
  that names a member of \<open>Object.prototype\<close> is taken for a known one and the request
  ends in the internal error, an initialization request without a session id registers
  one new session, and a \<open>DELETE\<close> that bears the id of a live session, on which the
  library closes the transport, takes the session out of both maps.
\<close>

lemma inherited_session_id_500:
  "fst (dispatch demo_app demo_env
          \<lparr>req_method = POST, mcp_session_id = Some ''constructor'',
           isInitializeRequest = False\<rparr> s0) =
     Inr (JsonRpcError 500 (- 32001) ''Internal server error'')"
  by (simp add: dispatch_def post_mcp_inherited s0_def object_prototype_keys_def)

lemma initialize_creates_session:
  "transports (snd (dispatch demo_app demo_env
          \<lparr>req_method = POST, mcp_session_id = None, isInitializeRequest = True\<rparr> s0)) =
     [''session-'' \<mapsto> 0]"
  by (simp add: dispatch_def post_mcp_def Let_def bnd_log_index bnd_get_transports
      or_else_def new_transport_def handled_or_500_def handleRequest_new_def
      demo_app_def onsessioninitialized_def s0_def log_index_sessions log_index_fst
      catch_split bnd_split throw_run ret_run get_transports_def)

lemma delete_closes_session:
  "transports (snd (dispatch demo_app demo_env
          \<lparr>req_method = DELETE, mcp_session_id = Some ''session-'',
           isInitializeRequest = False\<rparr>
          (s0\<lparr>transports := [''session-'' \<mapsto> 0], servers := [''session-'' \<mapsto> 0],
              created := 1\<rparr>))) = Map.empty \<and>
   servers (snd (dispatch demo_app demo_env
          \<lparr>req_method = DELETE, mcp_session_id = Some ''session-'',
           isInitializeRequest = False\<rparr>
          (s0\<lparr>transports := [''session-'' \<mapsto> 0], servers := [''session-'' \<mapsto> 0],
              created := 1\<rparr>))) = Map.empty \<and>
   fst (dispatch demo_app demo_env
          \<lparr>req_method = DELETE, mcp_session_id = Some ''session-'',
           isInitializeRequest = False\<rparr>
          (s0\<lparr>transports := [''session-'' \<mapsto> 0], servers := [''session-'' \<mapsto> 0],
              created := 1\<rparr>)) = Inr (FromTransport 0)"
  by (simp add: dispatch_def handleSessionRequest_def Let_def bnd_log_index bnd_get_transports
      or_else_def js_get_def handleRequest_def onclose_def truthy_str_def
      demo_app_def s0_def log_index_sessions log_index_fst
      catch_split bnd_split throw_run ret_run get_transports_def)


section \<open>Images on the local file system\<close>

lemma localImagePath_prefix:
  assumes "HOST_IMAGE_PATH E = Some host" "host \<noteq> []" "prefix host imageUrl"
  shows "localImagePath_of E imageUrl = dockerImagePath @ drop (length host) imageUrl"
  using assms by (simp add: localImagePath_of_def or_else_def replace_prefix)

lemma basename_no_slash: "CHR ''/'' \<notin> set (basename p)"
  by (auto simp: basename_def dest: set_takeWhileD)

lemma rev_path_split:
  "rev p =
     takeWhile (\<lambda>c. c = CHR ''/'') (rev p) @
     takeWhile (\<lambda>c. c \<noteq> CHR ''/'') (dropWhile (\<lambda>c. c = CHR ''/'') (rev p)) @
     dropWhile (\<lambda>c. c \<noteq> CHR ''/'') (dropWhile (\<lambda>c. c = CHR ''/'') (rev p))"
  by simp

lemma trailing_slashes: "set (rev (takeWhile (\<lambda>c. c = CHR ''/'') (rev p))) \<subseteq> {CHR ''/''}"
  by (auto dest: set_takeWhileD)

lemma segment_start:
  "rev (dropWhile (\<lambda>c. c \<noteq> CHR ''/'') d) = [] \<or>
   last (rev (dropWhile (\<lambda>c. c \<noteq> CHR ''/'') d)) = CHR ''/''"
proof (cases "dropWhile (\<lambda>c. c \<noteq> CHR ''/'') d")
  case Nil
  then show ?thesis by simp
next
  case (Cons c cs)
  with hd_dropWhile [of "\<lambda>c. c \<noteq> CHR ''/''" d] have "c = CHR ''/''" by simp
  with Cons show ?thesis by simp
qed


lemma basename_split:
  "p = rev (dropWhile (\<lambda>c. c \<noteq> CHR ''/'') (dropWhile (\<lambda>c. c = CHR ''/'') (rev p))) @
       basename p @ rev (takeWhile (\<lambda>c. c = CHR ''/'') (rev p))"
proof -
  have "rev (rev p) =
      rev (takeWhile (\<lambda>c. c = CHR ''/'') (rev p) @
           takeWhile (\<lambda>c. c \<noteq> CHR ''/'') (dropWhile (\<lambda>c. c = CHR ''/'') (rev p)) @
           dropWhile (\<lambda>c. c \<noteq> CHR ''/'') (dropWhile (\<lambda>c. c = CHR ''/'') (rev p)))"
    by (rule arg_cong [OF rev_path_split])
  then show ?thesis
    unfolding basename_def rev_append rev_rev_ident append_assoc .
qed

lemma basename_last_segment:
  "\<exists>pre post. p = pre @ basename p @ post \<and> (pre = [] \<or> last pre = CHR ''/'') \<and>
      set post \<subseteq> {CHR ''/''}"
  apply (rule exI [of _
        "rev (dropWhile (\<lambda>c. c \<noteq> CHR ''/'') (dropWhile (\<lambda>c. c = CHR ''/'') (rev p)))"])
  apply (rule exI [of _ "rev (takeWhile (\<lambda>c. c = CHR ''/'') (rev p))"])
  apply (intro conjI)
    apply (rule basename_split)
   apply (rule segment_start)
  apply (rule trailing_slashes)
  done

lemma localImagePath_absent:
  assumes "HOST_IMAGE_PATH E = Some host" "\<not> str_includes imageUrl host"
  shows "localImagePath_of E imageUrl = imageUrl"
  using assms by (simp add: localImagePath_of_def or_else_def replace_absent)

text \<open>
  What \<open>uploadImage\<close> does with a reference that is not a remote address, when a host
  path prefix is configured and the file can be read. The file is read at the mapped
  path, and the upload follows under the explicit file name when the caller passes one
  (\<open>cover.jpg\<close> for a cover), and otherwise under the last segment of the mapped path,
  with \<open>.jpg\<close> appended when \<open>extname\<close> finds no extension in it. When the reference
  begins with the host prefix, the mapped path is the container prefix followed by the
  rest of the reference; when the host prefix does not occur in the reference, the
  mapped path is the reference. The last segment is what \<open>basename\<close> gives: it holds no
  slash, it is preceded in the path by nothing or by a slash, and followed by slashes
  only.
\<close>

lemma uploadImage_local:
  assumes "\<not> startsWith imageUrl ''http''"
    and "HOST_IMAGE_PATH E = Some host" and "host \<noteq> []"
    and "file_from_path E (localImagePath_of E imageUrl) = Some file"
  shows
    "net (snd (uploadImage E imageUrl accessToken fileName w)) =
       net w @
       [ReadFile (localImagePath_of E imageUrl),
        UploadRequest ''image'' accessToken
          (case fileName of
             Some f \<Rightarrow> f
           | None \<Rightarrow>
               if extname (basename (localImagePath_of E imageUrl)) = []
               then basename (localImagePath_of E imageUrl) @ ''.jpg''
               else basename (localImagePath_of E imageUrl))
          file] \<and>
     (prefix host imageUrl \<longrightarrow>
        localImagePath_of E imageUrl = dockerImagePath @ drop (length host) imageUrl) \<and>
     (\<not> str_includes imageUrl host \<longrightarrow> localImagePath_of E imageUrl = imageUrl) \<and>
     CHR ''/'' \<notin> set (basename (localImagePath_of E imageUrl)) \<and>
     (\<exists>pre post. localImagePath_of E imageUrl =
          pre @ basename (localImagePath_of E imageUrl) @ post \<and>
        (pre = [] \<or> last pre = CHR ''/'') \<and> set post \<subseteq> {CHR ''/''})"
proof (intro conjI impI)
  from assms show "net (snd (uploadImage E imageUrl accessToken fileName w)) =
       net w @
       [ReadFile (localImagePath_of E imageUrl),
        UploadRequest ''image'' accessToken
          (case fileName of
             Some f \<Rightarrow> f
           | None \<Rightarrow>
               if extname (basename (localImagePath_of E imageUrl)) = []
               then basename (localImagePath_of E imageUrl) @ ''.jpg''
               else basename (localImagePath_of E imageUrl))
          file]"
    by (simp add: uploadImage_net imageName_of_def)
  show "CHR ''/'' \<notin> set (basename (localImagePath_of E imageUrl))"
    by (rule basename_no_slash)
  show "\<exists>pre post. localImagePath_of E imageUrl =
          pre @ basename (localImagePath_of E imageUrl) @ post \<and>
        (pre = [] \<or> last pre = CHR ''/'') \<and> set post \<subseteq> {CHR ''/''}"
    by (rule basename_last_segment)
next
  assume "prefix host imageUrl"
  with assms show "localImagePath_of E imageUrl = dockerImagePath @ drop (length host) imageUrl"
    by (simp add: localImagePath_prefix)
next
  assume "\<not> str_includes imageUrl host"
  with assms show "localImagePath_of E imageUrl = imageUrl"
    by (simp add: localImagePath_absent)
qed

lemma uploadImage_local_examples:
  "net (snd (uploadImage demo_env ''/home/me/pics/sub/photo'' ''T'' None w0)) =
     [ReadFile ''/mnt/host-downloads/sub/photo'',
      UploadRequest ''image'' ''T'' ''photo.jpg'' ''bytes''] \<and>
   net (snd (uploadImage demo_env ''/home/me/pics/a.b/photo.png'' ''T'' None w0)) =
     [ReadFile ''/mnt/host-downloads/a.b/photo.png'',
      UploadRequest ''image'' ''T'' ''photo.png'' ''bytes''] \<and>
   net (snd (uploadImage demo_env ''/srv/img/x.png'' ''T'' None w0)) =
     [ReadFile ''/srv/img/x.png'', UploadRequest ''image'' ''T'' ''x.png'' ''bytes'']"
  by (simp add: uploadImage_net demo_simps)

text \<open>
  C8 is not what the code does on a local reference that holds the host prefix past its
  start. With the host prefix \<open>/home/me/pics\<close> configured, the reference
  \<open>/backup/home/me/pics/x.png\<close> is a local one that does not begin with the host prefix,
  so that a substitution of the leading prefix leaves it as it is. The code maps the path
  with \<open>String.replace\<close>, which rewrites the first occurrence of the host prefix
  wherever it stands: the file is read at \<open>/backup/mnt/host-downloads/x.png\<close>. It is
  the slip of \<open>uploadMaterial\<close> on the returned address (C2), made on the path. The upload
  name is derived from the last segment as the claim says.
\<close>

theorem host_prefix_rewritten_inside_path:
  "HOST_IMAGE_PATH demo_env = Some ''/home/me/pics'' \<and>
   \<not> startsWith ''/backup/home/me/pics/x.png'' ''http'' \<and>
   \<not> startsWith ''/backup/home/me/pics/x.png'' ''/home/me/pics'' \<and>
   localImagePath_of demo_env ''/backup/home/me/pics/x.png'' =
     ''/backup/mnt/host-downloads/x.png'' \<and>
   net (snd (uploadImage demo_env ''/backup/home/me/pics/x.png'' ''T'' None w0)) =
     [ReadFile ''/backup/mnt/host-downloads/x.png'',
      UploadRequest ''image'' ''T'' ''x.png'' ''bytes''] \<and>
   fst (uploadImage demo_env ''/backup/home/me/pics/x.png'' ''T'' None w0) =
     Inr \<lparr>media_id = ''id-x.png'', url = ''https://mmbiz.qpic.cn/x.png''\<rparr>"
  by (simp add: uploadImage_net uploadImage_fst uploadMaterial_fst demo_simps)


section \<open>Relocating the images of a document\<close>

lemma uploadImage_outcome: "fst (uploadImage E s accessToken None w) = uploaded E accessToken s"
  by (simp add: uploaded_def uploadImage_fst uploadMaterial_fst split: option.split)

lemma uploadImage_finish_outcome:
  "fst (uploadImage_finish E s accessToken None w) = uploaded E accessToken s"
  by (simp add: uploaded_def uploadImage_fst uploadImage_finish_fst uploadMaterial_fst
      split: option.split)

lemma uploadPromise_begin_fst: "fst (uploadPromise_begin E n w) = Inr ()"
  by (simp add: uploadPromise_begin_def uploadImage_begin_fst ret_run
      split: node.split option.split)

lemma uploadPromise_begin_quiet:
  assumes "usable_src n = None"
  shows "uploadPromise_begin E n w = (Inr (), w)"
  using assms
  by (auto simp: uploadPromise_begin_def usable_src_def ret_run
      split: node.splits option.splits if_splits)

lemma uploadPromise_quiet:
  assumes "usable_src n = None"
  shows "uploadPromise_finish E tok n w = (Inr (n, None), w)"
  using assms
  by (auto simp: uploadPromise_finish_def usable_src_def ret_run
      split: node.splits option.splits if_splits)

lemma uploadPromise_cdn:
  assumes "usable_src n = Some s" "startsWith s cdnPrefix"
  shows "uploadPromise_finish E tok n w = (Inr (n, Some s), w)"
  using assms
  by (auto simp: uploadPromise_finish_def usable_src_def ret_run
      split: node.splits option.splits if_splits)

lemma uploadPromise_upload:
  assumes "usable_src n = Some s" "\<not> startsWith s cdnPrefix"
  shows "fst (uploadPromise_finish E tok n w) =
           (case uploaded E tok s of
              Inl e \<Rightarrow> Inl e
            | Inr resp \<Rightarrow> Inr (set_src n (url resp), Some (media_id resp)))"
  using assms
  by (auto simp: uploadPromise_finish_def usable_src_def set_src_def ret_run bnd_split
      uploadImage_finish_outcome split: node.splits option.splits if_splits sum.splits)

lemma uploadPromise_world_free:
  "fst (uploadPromise_finish E tok n w) = fst (uploadPromise_finish E tok n w0)"
proof (cases "usable_src n")
  case None
  then show ?thesis by (simp add: uploadPromise_quiet)
next
  case (Some s)
  then show ?thesis
    by (cases "startsWith s cdnPrefix") (simp_all add: uploadPromise_cdn uploadPromise_upload)
qed

lemma uploadPromise_cases:
  assumes "fst (uploadPromise_finish E tok n w) = Inr out"
  shows "case usable_src n of
           None \<Rightarrow> out = (n, None)
         | Some s \<Rightarrow>
             if startsWith s cdnPrefix then out = (n, Some s)
             else (\<exists>resp. uploaded E tok s = Inr resp \<and>
                    out = (set_src n (url resp), Some (media_id resp)))"
proof (cases "usable_src n")
  case None
  with assms show ?thesis by (simp add: uploadPromise_quiet)
next
  case (Some s)
  show ?thesis
  proof (cases "startsWith s cdnPrefix")
    case True
    with assms Some show ?thesis by (simp add: uploadPromise_cdn)
  next
    case False
    with assms Some show ?thesis
      by (auto simp: uploadPromise_upload split: sum.splits)
  qed
qed

lemma begin_all_fst: "fst (begin_all E doc w) = Inr ()"
  by (induction doc arbitrary: w) (simp_all add: ret_run bnd_split uploadPromise_begin_fst)

lemma settle_all_fst:
  "fst (settle_all E tok doc order w) =
     Inr (map (\<lambda>i. (i, fst (uploadPromise_finish E tok (doc ! i) w0))) order)"
proof (induction order arbitrary: w)
  case Nil
  show ?case by (simp add: ret_run)
next
  case (Cons i order)
  show ?case
    using uploadPromise_world_free [of E tok "doc ! i" w]
    by (simp add: bnd_split settle_split Cons.IH ret_run)
qed

lemma uploadPromises_fst:
  "fst (uploadPromises E tok doc w) =
     Inr (map (\<lambda>i. (i, fst (uploadPromise_finish E tok (doc ! i) w0))) (settle_order_of E doc))"
  by (simp add: uploadPromises_def bnd_split begin_all_fst settle_all_fst)

lemma settle_order_of_distinct: "distinct (settle_order_of E doc)"
  by (auto simp: settle_order_of_def Let_def)

lemma settle_order_of_set: "set (settle_order_of E doc) = {0..<length doc}"
  by (auto simp: settle_order_of_def Let_def)

lemma sort_key_fst_tabulated:
  assumes d: "distinct order" and s: "set order = {0..<n}"
  shows "sort_key fst (map (\<lambda>i. (i, f i)) order) = map (\<lambda>i. (i, f i)) [0..<n]"
proof -
  let ?xs = "map (\<lambda>i. (i, f i)) order"
  let ?ys = "sort_key fst ?xs"
  have set_ys: "set ?ys = set ?xs" by simp
  have keys: "set (map fst ?ys) = {0..<n}"
    using s by (simp add: image_image)
  have len: "length (map fst ?ys) = length order" by simp
  from d have "card (set order) = length order" by (rule distinct_card)
  with keys s len have "card (set (map fst ?ys)) = length (map fst ?ys)" by simp
  then have dist: "distinct (map fst ?ys)" by (rule card_distinct)
  have "sorted (map fst ?ys)" by (rule sorted_sort_key)
  with dist keys have fsts: "map fst ?ys = [0..<n]"
    by (intro sorted_distinct_set_unique) simp_all
  have ident: "(fst p, f (fst p)) = p" if "p \<in> set ?ys" for p
  proof -
    from that obtain i where "p = (i, f i)" by auto
    then show ?thesis by simp
  qed
  have "map (\<lambda>p. (fst p, f (fst p))) ?ys = ?ys"
    by (rule map_idI) (rule ident)
  then have "?ys = map (\<lambda>i. (i, f i)) (map fst ?ys)"
    by (simp add: comp_def)
  with fsts show ?thesis by simp
qed

lemma map_nth_upt: "map (\<lambda>i. g (doc ! i)) [0..<length doc] = map g doc"
  by (rule nth_equalityI) simp_all

lemma promise_all_tabulated:
  assumes "distinct order" and "set order = {0..<length doc}"
  shows "promise_all (map (\<lambda>i. (i, g (doc ! i))) order) =
     (case all_values (map (\<lambda>i. g (doc ! i)) order) of
        Inl e \<Rightarrow> Inl e
      | Inr _ \<Rightarrow> all_values (map g doc))"
  using sort_key_fst_tabulated [OF assms, of "\<lambda>i. g (doc ! i)"]
  by (simp add: promise_all_def comp_def map_nth_upt split: sum.split)

lemma all_values_Inr: "all_values rs = Inr xs \<Longrightarrow> rs = map Inr xs"
proof (induction rs arbitrary: xs)
  case Nil
  then show ?case by simp
next
  case (Cons r rs)
  then show ?case by (cases r) (auto split: sum.splits)
qed

lemma uploadPromise_relocated:
  assumes "fst (uploadPromise_finish E tok n w) = Inr out"
  shows "relocated E tok n out"
  using uploadPromise_cases [OF assms]
  by (auto simp: relocated_def split: option.splits if_splits)

lemma uploadImages_results:
  fixes w :: "'a world_scheme"
  assumes run: "fst (uploadImages E content tok w) = Inr r"
    and inc: "str_includes content ''<img''"
  shows "\<exists>results.
      list_all2 (relocated E tok) (jsdom_parse E content) results \<and>
      html r = jsdom_serialize E (map fst results) \<and>
      firstImageId r = first_or_empty (filter_Boolean (map snd results))"
proof -
  let ?doc = "jsdom_parse E content"
  let ?g = "\<lambda>n. fst (uploadPromise_finish E tok n w0)"
  let ?settled = "map (\<lambda>i. (i, ?g (?doc ! i))) (settle_order_of E ?doc)"
  have eq: "fst (uploadImages E content tok w) =
      (case promise_all ?settled of
         Inl e \<Rightarrow> Inl e
       | Inr results \<Rightarrow>
           Inr \<lparr>html = jsdom_serialize E (map fst results),
                firstImageId = first_or_empty (filter_Boolean (map snd results))\<rparr>)"
    using inc
    by (simp add: uploadImages_def Let_def bnd_log_publish bnd_split log_publish_fst
        uploadPromises_fst throw_run ret_run split: sum.split)
  with run obtain results where
    res: "promise_all ?settled = Inr results"
      "r = \<lparr>html = jsdom_serialize E (map fst results),
            firstImageId = first_or_empty (filter_Boolean (map snd results))\<rparr>"
    by (cases "promise_all ?settled") auto
  from res(1)
    promise_all_tabulated [OF settle_order_of_distinct settle_order_of_set, where g = ?g]
  have "all_values (map ?g ?doc) = Inr results"
    by (auto split: sum.splits)
  from all_values_Inr [OF this] have m: "map ?g ?doc = map Inr results" .
  then have len: "length ?doc = length results" by (rule map_eq_imp_length_eq)
  have "list_all2 (\<lambda>n out. ?g n = Inr out) ?doc results"
  proof (rule list_all2_all_nthI [OF len])
    fix i
    assume i: "i < length ?doc"
    from m have "map ?g ?doc ! i = map Inr results ! i" by simp
    with i len show "?g (?doc ! i) = Inr (results ! i)" by simp
  qed
  then have "list_all2 (relocated E tok) ?doc results"
    by (rule list_all2_mono) (auto intro: uploadPromise_relocated)
  with res(2) show ?thesis by auto
qed

lemma filter_Boolean_append:
  "filter_Boolean (xs @ ys) = filter_Boolean xs @ filter_Boolean ys"
  by (induction xs rule: filter_Boolean.induct) auto

lemma relocated_quiet:
  "list_all2 (relocated E tok) doc results \<Longrightarrow> list_all (\<lambda>m. usable_src m = None) doc \<Longrightarrow>
   map fst results = doc \<and> filter_Boolean (map snd results) = []"
  by (induction rule: list_all2_induct) (auto simp: relocated_def)

lemma usable_src_nonempty: "usable_src n = Some s \<Longrightarrow> s \<noteq> []"
  by (auto simp: usable_src_def split: node.splits option.splits if_splits)

lemma not_img_unusable: "\<not> is_img n \<Longrightarrow> usable_src n = None"
  by (auto simp: usable_src_def is_img_def split: node.splits)

text \<open>
  C6, as the code has it. Take a document in which the text \<open><img\<close> occurs and whose
  relocation succeeds. The html returned is the serialized document in which every node
  is relocated in place: \<open>img\<close> elements on the platform's CDN and nodes without a
  usable \<open>src\<close> (no \<open>img\<close>, no \<open>src\<close> attribute, or an empty one) are as they were, every
  other \<open>img\<close> has its \<open>src\<close> set to the uploaded address. The fallback media id is the
  first value, in document order, that is not empty. So for the first \<open>img\<close> element
  with a \<open>src\<close> that is not empty: if the \<open>src\<close> is on the CDN, the fallback is that
  \<open>src\<close>; if not, the image has been uploaded and its media id, when not empty, is the
  fallback.
\<close>

theorem uploadImages_document_order:
  assumes run: "fst (uploadImages E content tok w) = Inr r"
    and inc: "str_includes content ''<img''"
  shows
    "(\<exists>results.
        list_all2 (relocated E tok) (jsdom_parse E content) results \<and>
        html r = jsdom_serialize E (map fst results) \<and>
        firstImageId r = first_or_empty (filter_Boolean (map snd results))) \<and>
     (\<forall>pre n post s.
        jsdom_parse E content = pre @ n # post \<and> list_all (\<lambda>m. usable_src m = None) pre \<and>
        usable_src n = Some s \<longrightarrow>
        (if startsWith s cdnPrefix then firstImageId r = s
         else (\<exists>resp. uploaded E tok s = Inr resp \<and>
                 (media_id resp \<noteq> [] \<longrightarrow> firstImageId r = media_id resp))))"
proof (intro conjI allI impI)
  show "\<exists>results.
        list_all2 (relocated E tok) (jsdom_parse E content) results \<and>
        html r = jsdom_serialize E (map fst results) \<and>
        firstImageId r = first_or_empty (filter_Boolean (map snd results))"
    by (rule uploadImages_results [OF run inc])
next
  fix pre n post s
  assume a: "jsdom_parse E content = pre @ n # post \<and>
        list_all (\<lambda>m. usable_src m = None) pre \<and> usable_src n = Some s"
  from uploadImages_results [OF run inc] obtain results where
    r: "list_all2 (relocated E tok) (jsdom_parse E content) results"
      "firstImageId r = first_or_empty (filter_Boolean (map snd results))"
    by blast
  from r(1) a obtain rpre rn rpost where
    split: "results = rpre @ rn # rpost" "list_all2 (relocated E tok) pre rpre"
      "relocated E tok n rn"
    by (auto simp: list_all2_append1 list_all2_Cons1)
  from relocated_quiet [OF split(2)] a have "filter_Boolean (map snd rpre) = []" by simp
  with r(2) split(1) have
    first: "firstImageId r = first_or_empty (filter_Boolean (snd rn # map snd rpost))"
    by (simp add: filter_Boolean_append)
  from a have ne: "s \<noteq> []" by (auto dest: usable_src_nonempty)
  show "if startsWith s cdnPrefix then firstImageId r = s
        else (\<exists>resp. uploaded E tok s = Inr resp \<and>
                (media_id resp \<noteq> [] \<longrightarrow> firstImageId r = media_id resp))"
  proof (cases "startsWith s cdnPrefix")
    case True
    with split(3) a have "snd rn = Some s" by (simp add: relocated_def)
    with first ne True show ?thesis by (simp add: first_or_empty_def)
  next
    case False
    with split(3) a obtain resp where
      "uploaded E tok s = Inr resp" "snd rn = Some (media_id resp)"
      by (auto simp: relocated_def split: sum.splits)
    with first False show ?thesis by (auto simp: first_or_empty_def)
  qed
qed


theorem uploadImages_document_order_witness:
  "(\<exists>r. fst (uploadImages demo_env ''<img src=https://mmbiz.qpic.cn/x><img src=b>'' ''T'' w0) =
          Inr r \<and> firstImageId r = ''https://mmbiz.qpic.cn/x'') \<and>
   (\<exists>r. fst (uploadImages demo_env ''<p><img src=https://example.com/a.png></p>'' ''T'' w0) =
          Inr r \<and> firstImageId r = ''id-a.png'')"
proof -
  let ?c1 = "''<img src=https://mmbiz.qpic.cn/x><img src=b>''"
  let ?c2 = "''<p><img src=https://example.com/a.png></p>''"
  have run1: "fst (uploadImages demo_env ?c1 ''T'' w0) =
      Inr (projr (fst (uploadImages demo_env ?c1 ''T'' w0)))"
    by (simp add: uploadImages_def upload_simps run_simps demo_simps)
  have run2: "fst (uploadImages demo_env ?c2 ''T'' w0) =
      Inr (projr (fst (uploadImages demo_env ?c2 ''T'' w0)))"
    by (simp add: demo_images_fst)
  have inc1: "str_includes ?c1 ''<img''" by simp
  have inc2: "str_includes ?c2 ''<img''" by simp
  have up: "uploaded demo_env ''T'' ''https://example.com/a.png'' =
      Inr \<lparr>media_id = ''id-a.png'', url = ''https://mmbiz.qpic.cn/a.png''\<rparr>"
    by (simp add: uploaded_def uploadImage_fst uploadMaterial_fst demo_simps)
  from uploadImages_document_order [OF run1 inc1, THEN conjunct2, rule_format,
      of "[]" "Img [(''src'', ''https://mmbiz.qpic.cn/x'')]" "[Img [(''src'', ''b'')]]"
        "''https://mmbiz.qpic.cn/x''"]
  have 1: "firstImageId (projr (fst (uploadImages demo_env ?c1 ''T'' w0))) =
      ''https://mmbiz.qpic.cn/x''"
    by (simp add: demo_simps usable_src_def)
  from uploadImages_document_order [OF run2 inc2, THEN conjunct2, rule_format,
      of "[Other ''<p>'']" "Img [(''src'', ''https://example.com/a.png'')]" "[Other ''</p>'']"
        "''https://example.com/a.png''"] up
  have 2: "firstImageId (projr (fst (uploadImages demo_env ?c2 ''T'' w0))) = ''id-a.png''"
    by (simp add: demo_simps usable_src_def)
  from run1 1 have "\<exists>r. fst (uploadImages demo_env ?c1 ''T'' w0) = Inr r \<and>
      firstImageId r = ''https://mmbiz.qpic.cn/x''"
    by (intro exI conjI)
  moreover from run2 2 have "\<exists>r. fst (uploadImages demo_env ?c2 ''T'' w0) = Inr r \<and>
      firstImageId r = ''id-a.png''"
    by (intro exI conjI)
  ultimately show ?thesis by (intro conjI)
qed

text \<open>
  C6 as stated fails on an \<open>img\<close> element whose \<open>src\<close> attribute is empty: the element
  has a \<open>src\<close> attribute that is not on the CDN, yet it is neither uploaded nor
  rewritten, and the fallback media id is that of the element after it.
\<close>

theorem empty_src_is_skipped:
  "jsdom_parse demo_env ''<img src><img src=a.png>'' =
     [Img [(''src'', [])], Img [(''src'', ''a.png'')]] \<and>
   getAttribute [(''src'', [])] ''src'' = Some [] \<and> \<not> startsWith [] cdnPrefix \<and>
   fst (uploadImages demo_env ''<img src><img src=a.png>'' ''T'' w0) =
     Inr \<lparr>html = jsdom_serialize demo_env
                    [Img [(''src'', [])], Img [(''src'', ''https://mmbiz.qpic.cn/a.png'')]],
          firstImageId = ''id-a.png''\<rparr> \<and>
   net (snd (uploadImages demo_env ''<img src><img src=a.png>'' ''T'' w0)) =
     [ReadFile ''a.png'', UploadRequest ''image'' ''T'' ''a.png'' ''bytes'']"
  by (simp add: uploadImages_def upload_simps run_simps demo_simps)

text \<open>
  The order in time and the order of the document. In \<open>two_images_env\<close> the second
  image comes to its end first: the file read and the download both go out before the
  first upload, the uploads follow in the order in which they end, and the fallback
  media id is still that of the first image of the document. In \<open>racing_env\<close> both
  images fail, and the relocation fails with the failure that comes first, that of the
  second image; when they end in document order it fails with that of the first.
\<close>

lemma two_images_in_time:
  "net (snd (uploadImages two_images_env ''<img>'' ''T'' w0)) =
     [ReadFile ''/srv/a.png'', Download ''https://example.com/b.png'',
      UploadRequest ''image'' ''T'' ''b.png'' ''bytes'',
      UploadRequest ''image'' ''T'' ''a.png'' ''bytes''] \<and>
   fst (uploadImages two_images_env ''<img>'' ''T'' w0) =
     Inr \<lparr>html = demo_serialize [Img [(''src'', ''https://mmbiz.qpic.cn/a.png'')],
                    Img [(''src'', ''https://mmbiz.qpic.cn/b.png'')]],
          firstImageId = ''id-a.png''\<rparr>"
  by (simp add: uploadImages_def Let_def upload_simps run_simps two_images_env_def demo_simps)

lemma first_failure_in_time:
  "fst (uploadImages racing_env ''<img>'' ''T'' w0) = Inl FetchFailed \<and>
   net (snd (uploadImages racing_env ''<img>'' ''T'' w0)) =
     [ReadFile ''/srv/a.png'', Download ''https://example.com/b.png''] \<and>
   fst (uploadImages (racing_env\<lparr>settle_order := (\<lambda>images. [0, 1])\<rparr>) ''<img>'' ''T'' w0) =
     Inl (FileNotFound ''/srv/a.png'')"
  by (simp add: uploadImages_def Let_def upload_simps run_simps racing_env_def
      two_images_env_def demo_simps)


section \<open>Documents without images\<close>

lemma begin_all_quiet:
  "list_all (\<lambda>n. usable_src n = None) doc \<Longrightarrow> begin_all E doc w = (Inr (), w)"
  by (induction doc) (simp_all add: ret_run bnd_split uploadPromise_begin_quiet)

lemma settle_all_quiet:
  assumes "list_all (\<lambda>n. usable_src n = None) doc"
  shows "\<forall>i\<in>set order. i < length doc \<Longrightarrow>
     settle_all E tok doc order w = (Inr (map (\<lambda>i. (i, Inr (doc ! i, None))) order), w)"
proof (induction order)
  case Nil
  show ?case by (simp add: ret_run)
next
  case (Cons i order)
  from Cons.prems assms have "usable_src (doc ! i) = None"
    by (simp add: list_all_length)
  with Cons show ?case
    by (simp add: ret_run bnd_split settle_split uploadPromise_quiet)
qed

lemma uploadPromises_quiet:
  assumes "list_all (\<lambda>n. usable_src n = None) doc"
  shows "uploadPromises E tok doc w =
     (Inr (map (\<lambda>i. (i, Inr (doc ! i, None))) (settle_order_of E doc)), w)"
  using settle_all_quiet [OF assms, of "settle_order_of E doc" E tok w]
  by (simp add: uploadPromises_def bnd_split begin_all_quiet [OF assms] settle_order_of_set)

lemma all_values_map_Inr: "all_values (map Inr xs) = Inr xs"
  by (induction xs) simp_all

lemma promise_all_quiet:
  "promise_all (map (\<lambda>i. (i, Inr (doc ! i, None :: string option))) (settle_order_of E doc)) =
     Inr (map (\<lambda>n. (n, None)) doc)"
proof -
  have 1: "all_values (map (\<lambda>i. Inr (doc ! i, None :: string option)) (settle_order_of E doc)) =
      Inr (map (\<lambda>i. (doc ! i, None)) (settle_order_of E doc))"
    using all_values_map_Inr [of "map (\<lambda>i. (doc ! i, None :: string option))
      (settle_order_of E doc)"]
    by (simp add: comp_def)
  have 2: "all_values (map (\<lambda>n. Inr (n, None :: string option)) doc) =
      Inr (map (\<lambda>n. (n, None)) doc)"
    using all_values_map_Inr [of "map (\<lambda>n. (n, None :: string option)) doc"]
    by (simp add: comp_def)
  show ?thesis
    using promise_all_tabulated [OF settle_order_of_distinct settle_order_of_set,
        where g = "\<lambda>n. Inr (n, None :: string option)", of doc E]
    by (simp add: 1 2)
qed

lemma filter_Boolean_None: "filter_Boolean (map (\<lambda>n. None) doc) = []"
  by (induction doc) simp_all

lemma uploadImages_quiet:
  assumes "list_all (\<lambda>n. \<not> is_img n) (jsdom_parse E content)"
    and "str_includes content ''<img''"
  shows "fst (uploadImages E content tok w) =
           Inr \<lparr>html = jsdom_serialize E (jsdom_parse E content), firstImageId = []\<rparr>"
    and "net (snd (uploadImages E content tok w)) = net w"
proof -
  from assms(1) have q: "list_all (\<lambda>n. usable_src n = None) (jsdom_parse E content)"
    by (auto simp: list_all_iff not_img_unusable)
  have m: "map fst (map (\<lambda>n. (n, None :: string option)) (jsdom_parse E content)) =
      jsdom_parse E content"
    by (simp add: comp_def)
  note p = promise_all_quiet [of "jsdom_parse E content" E]
  show "fst (uploadImages E content tok w) =
           Inr \<lparr>html = jsdom_serialize E (jsdom_parse E content), firstImageId = []\<rparr>"
    using assms(2)
    by (simp add: uploadImages_def Let_def bnd_log_publish bnd_split log_publish_fst
        uploadPromises_quiet [OF q] p ret_run comp_def filter_Boolean_None first_or_empty_def)
  show "net (snd (uploadImages E content tok w)) = net w"
    using assms(2)
    by (simp add: uploadImages_def Let_def bnd_log_publish bnd_split log_publish_fst
        uploadPromises_quiet [OF q] p ret_run log_publish_net)
qed

text \<open>
  C5, as the code has it. When the text \<open><img\<close> does not occur in the input,
  \<open>uploadImages\<close> returns the input itself, with an empty fallback media id, and sends
  nothing. When the parsed input has no \<open>img\<close> element, the fallback media id is empty
  and nothing is sent either; but the html returned is then the input only if the text
  \<open><img\<close> does not occur in it, and the serialized document otherwise.
\<close>

theorem uploadImages_without_images:
  "(\<not> str_includes content ''<img'' \<longrightarrow>
      fst (uploadImages E content tok w) = Inr \<lparr>html = content, firstImageId = []\<rparr> \<and>
      net (snd (uploadImages E content tok w)) = net w) \<and>
   (list_all (\<lambda>n. \<not> is_img n) (jsdom_parse E content) \<longrightarrow>
      fst (uploadImages E content tok w) =
        Inr \<lparr>html = (if str_includes content ''<img''
                      then jsdom_serialize E (jsdom_parse E content) else content),
             firstImageId = []\<rparr> \<and>
      net (snd (uploadImages E content tok w)) = net w)"
  by (cases "str_includes content ''<img''")
    (simp_all add: uploadImages_fast uploadImages_quiet)

theorem uploadImages_without_images_witness:
  "fst (uploadImages demo_env ''<p>text</p>'' ''T'' w0) =
     Inr \<lparr>html = ''<p>text</p>'', firstImageId = []\<rparr> \<and>
   net (snd (uploadImages demo_env ''<p>text</p>'' ''T'' w0)) = []"
  using uploadImages_without_images [of "''<p>text</p>''" demo_env "''T''" w0]
  by (simp add: w0_def)

text \<open>
  C5 as stated fails: an input without \<open>img\<close> elements in which the text \<open><img\<close>
  occurs, here in a comment, is parsed and serialized, and the html returned is the
  serialized document and not the input.
\<close>

theorem comment_with_img_text:
  "list_all (\<lambda>n. \<not> is_img n) (jsdom_parse demo_env ''<p>a</p><!-- <img> -->'') \<and>
   fst (uploadImages demo_env ''<p>a</p><!-- <img> -->'' ''T'' w0) =
     Inr \<lparr>html = ''<html><head></head><body><p>a</p><!-- <img> --></body></html>'',
          firstImageId = []\<rparr> \<and>
   fst (uploadImages demo_env ''<p>a</p><!-- <img> -->'' ''T'' w0) \<noteq>
     Inr \<lparr>html = ''<p>a</p><!-- <img> -->'', firstImageId = []\<rparr>"
  by (simp add: uploadImages_quiet demo_env_def demo_parse_def is_img_def demo_serialize_def
      serialize_node_def)

end
